theory Spec2Isabelle
  imports Main "HOL-Library.Sublist"
begin

section \<open>JavaScript strings\<close>

text \<open>
  A JavaScript string is a sequence of UTF-16 code units. A code unit is modelled by its
  numeric value, so \<open>length\<close> is the source's \<open>.length\<close> and the non-ASCII characters
  the source writes (U+2013 and friends) are single elements. The function \<open>js\<close> turns
  an ASCII literal of the source into its code units.
\<close>

type_synonym jsstring = "nat list"

definition js :: "string \<Rightarrow> jsstring" where
  "js s = map of_char s"

text \<open>\<open>s.includes(k)\<close>: \<open>k\<close> occurs in \<open>s\<close> as a contiguous substring.\<close>

fun js_includes :: "jsstring \<Rightarrow> jsstring \<Rightarrow> bool" where
  "js_includes [] k = (k = [])"
| "js_includes (c # cs) k = (prefix k (c # cs) \<or> js_includes cs k)"

text \<open>\<open>s.endsWith(k)\<close>.\<close>

definition endsWith :: "jsstring \<Rightarrow> jsstring \<Rightarrow> bool" where
  "endsWith s k = suffix k s"

text \<open>
  \<open>s.replace(pat, rep)\<close> with a string pattern: only the first occurrence is replaced
  (the replacement strings of the source contain no \<open>$\<close> pattern).
\<close>

fun replace_first :: "jsstring \<Rightarrow> jsstring \<Rightarrow> jsstring \<Rightarrow> jsstring" where
  "replace_first pat rep [] = (if pat = [] then rep else [])"
| "replace_first pat rep (c # cs) =
     (if prefix pat (c # cs) then rep @ drop (length pat) (c # cs)
      else c # replace_first pat rep cs)"

text \<open>
  \<open>s.replace(/re/g, rep)\<close> for a regular expression without anchors or look-behind: the
  matcher \<open>m\<close> gives, for the rest of the string at the current position, the length of
  the match that starts there (\<open>None\<close> when there is none). Matches are taken left to
  right and do not overlap; after an empty match the scan advances by one code unit.
\<close>

fun replace_g :: "(jsstring \<Rightarrow> nat option) \<Rightarrow> jsstring \<Rightarrow> jsstring \<Rightarrow> jsstring" where
  "replace_g m rep [] = (case m [] of None \<Rightarrow> [] | Some _ \<Rightarrow> rep)"
| "replace_g m rep (c # cs) =
     (case m (c # cs) of
        None \<Rightarrow> c # replace_g m rep cs
      | Some 0 \<Rightarrow> rep @ c # replace_g m rep cs
      | Some (Suc k) \<Rightarrow> rep @ replace_g m rep (drop k cs))"

text \<open>
  White space as \<open>String.prototype.trim\<close> and \<open>parseInt\<close> see it: the WhiteSpace and
  LineTerminator code points of ECMAScript.
\<close>

definition isWhiteSpace :: "nat \<Rightarrow> bool" where
  "isWhiteSpace c \<longleftrightarrow>
     c \<in> {0x9, 0xA, 0xB, 0xC, 0xD, 0x20, 0xA0, 0x1680, 0x2028, 0x2029, 0x202F, 0x205F,
          0x3000, 0xFEFF} \<or> (0x2000 \<le> c \<and> c \<le> 0x200A)"

definition trim :: "jsstring \<Rightarrow> jsstring" where
  "trim s = rev (dropWhile isWhiteSpace (rev (dropWhile isWhiteSpace s)))"

text \<open>
  Case folding of the \<open>i\<close> flag (without the \<open>u\<close> flag): a code unit is compared through
  its upper-case form, and a code unit of 128 or more never folds to an ASCII one, so
  against the ASCII patterns of the source only the ASCII letters fold.
\<close>

definition canonicalize :: "nat \<Rightarrow> nat" where
  "canonicalize c = (if 97 \<le> c \<and> c \<le> 122 then c - 32 else c)"

definition prefix_ci :: "jsstring \<Rightarrow> jsstring \<Rightarrow> bool" where
  "prefix_ci pat s = prefix (map canonicalize pat) (map canonicalize s)"

section \<open>HtmlTextExtractor\<close>

text \<open>
  One matcher per regular expression of \<open>htmlToPlainText\<close>. Each gives the length of the
  match at the start of its argument. None of the expressions needs a search over
  alternatives: \<open>[^>]*\<close> followed by \<open>>\<close> can only end at the first \<open>>\<close>, and the
  lazy \<open>[\s\S]*?\<close> followed by a literal ends at the first occurrence of the literal.
\<close>

text \<open>A literal pattern such as \<open>/&amp;/\<close>.\<close>

definition match_literal :: "jsstring \<Rightarrow> jsstring \<Rightarrow> nat option" where
  "match_literal pat s = (if prefix pat s then Some (length pat) else None)"

text \<open>The index of the first position at which \<open>pat\<close> matches, letter case ignored.\<close>

fun find_ci :: "jsstring \<Rightarrow> jsstring \<Rightarrow> nat option" where
  "find_ci pat [] = (if pat = [] then Some 0 else None)"
| "find_ci pat (c # cs) =
     (if prefix_ci pat (c # cs) then Some 0 else map_option Suc (find_ci pat cs))"

text \<open>
  \<open>/<script[^>]*>[\s\S]*?<\/script>/i\<close>, and the same for \<open>style\<close>: the opening tag
  up to its first \<open>>\<close>, then everything up to the first closing tag.
\<close>

definition match_element :: "jsstring \<Rightarrow> jsstring \<Rightarrow> nat option" where
  "match_element tag s =
     (if \<not> prefix_ci (js ''<'' @ tag) s then None
      else let r1 = drop (Suc (length tag)) s;
               attrs = takeWhile (\<lambda>c. c \<noteq> 62) r1
           in (case drop (length attrs) r1 of
                 [] \<Rightarrow> None
               | _ # r2 \<Rightarrow>
                   (case find_ci (js ''</'' @ tag @ js ''>'') r2 of
                      None \<Rightarrow> None
                    | Some j \<Rightarrow>
                        Some (Suc (length tag) + length attrs + 1 + j + (length tag + 3)))))"

text \<open>
  \<open>/<\/?(p|div|h[1-6]|li|blockquote|tr|br)[^>]*>/i\<close>. The alternatives are tried in the
  order of the source, \<open>h[1-6]\<close> written out; no two of them match at the same place.
\<close>

definition BLOCK_TAGS :: "jsstring list" where
  "BLOCK_TAGS = map js
     [''p'', ''div'', ''h1'', ''h2'', ''h3'', ''h4'', ''h5'', ''h6'',
      ''li'', ''blockquote'', ''tr'', ''br'']"

definition match_block_tag :: "jsstring \<Rightarrow> nat option" where
  "match_block_tag s =
     (case s of
        [] \<Rightarrow> None
      | c # r0 \<Rightarrow>
          if c \<noteq> 60 then None
          else let r1 = (case r0 of [] \<Rightarrow> [] | d # r \<Rightarrow> if d = 47 then r else r0)
               in (case List.find (\<lambda>t. prefix_ci t r1) BLOCK_TAGS of
                     None \<Rightarrow> None
                   | Some t \<Rightarrow>
                       let r2 = drop (length t) r1;
                           attrs = takeWhile (\<lambda>c. c \<noteq> 62) r2
                       in if length attrs = length r2 then None
                          else Some (length s - length r2 + length attrs + 1)))"

text \<open>\<open>/<[^>]+>/\<close>: a \<open><\<close>, at least one code unit other than \<open>>\<close>, and the first \<open>>\<close>.\<close>

definition match_tag :: "jsstring \<Rightarrow> nat option" where
  "match_tag s =
     (case s of
        [] \<Rightarrow> None
      | c # r \<Rightarrow>
          if c \<noteq> 60 then None
          else let inner = takeWhile (\<lambda>c. c \<noteq> 62) r
               in if inner = [] \<or> length inner = length r then None
                  else Some (length inner + 2))"

text \<open>\<open>/\n{3,}/\<close> and \<open>/[ \t]{2,}/\<close>: a maximal run, of at least \<open>n\<close> code units.\<close>

definition match_run :: "(nat \<Rightarrow> bool) \<Rightarrow> nat \<Rightarrow> jsstring \<Rightarrow> nat option" where
  "match_run P n s =
     (let k = length (takeWhile P s) in if n \<le> k then Some k else None)"

definition htmlToPlainText :: "jsstring \<Rightarrow> jsstring" where
  "htmlToPlainText html =
     trim
      (replace_g (match_run (\<lambda>c. c = 32 \<or> c = 9) 2) (js '' '')
      (replace_g (match_run (\<lambda>c. c = 10) 3) [10, 10]
      (replace_g (match_literal (js ''&#8221;'')) [0x201D]
      (replace_g (match_literal (js ''&#8220;'')) [0x201C]
      (replace_g (match_literal (js ''&#8217;'')) [0x2019]
      (replace_g (match_literal (js ''&#8216;'')) [0x2018]
      (replace_g (match_literal (js ''&#8212;'')) [0x2014]
      (replace_g (match_literal (js ''&#8211;'')) [0x2013]
      (replace_g (match_literal (js ''&nbsp;'')) (js '' '')
      (replace_g (match_literal (js ''&#039;'')) [39]
      (replace_g (match_literal (js ''&quot;'')) [34]
      (replace_g (match_literal (js ''&gt;'')) (js ''>'')
      (replace_g (match_literal (js ''&lt;'')) (js ''<'')
      (replace_g (match_literal (js ''&amp;'')) (js ''&'')
      (replace_g match_tag []
      (replace_g match_block_tag [10]
      (replace_g (match_element (js ''style'')) []
      (replace_g (match_element (js ''script'')) [] html))))))))))))))))))"

definition stripHtml :: "jsstring \<Rightarrow> jsstring" where
  "stripHtml html =
     trim
      (replace_g (match_literal (js ''&#8211;'')) [0x2013]
      (replace_g (match_literal (js ''&amp;'')) (js ''&'')
      (replace_g match_tag [] html)))"

section \<open>The platform\<close>

text \<open>
  Three functions of the JavaScript platform are taken as parameters, since their
  definition is not part of the repository: \<open>String.prototype.toLowerCase\<close> (Unicode
  case mapping), \<open>String.prototype.localeCompare\<close> (the locale's collation) and the
  \<open>URL\<close> constructor, of which the handlers read \<open>protocol\<close> and \<open>hostname\<close>
  (\<open>None\<close> when the constructor throws).
\<close>

record url =
  protocol :: jsstring
  hostname :: jsstring

record platform =
  toLowerCase :: "jsstring \<Rightarrow> jsstring"
  localeCompare :: "jsstring \<Rightarrow> jsstring \<Rightarrow> int"
  parseURL :: "jsstring \<Rightarrow> url option"

section \<open>Upstream catalogue records\<close>

text \<open>
  A record of the upstream catalogue as the handlers read it: \<open>b.id\<close>, \<open>b.title\<close>,
  \<open>b.link\<close>, \<open>b.metadata\<close> and the properties of the metadata and of its license. Every
  property may be absent (\<open>None\<close>); a property that is present has the type the upstream
  schema gives it. The \<open>author\<close> and \<open>about\<close> arrays are kept as the list of the \<open>name\<close>
  properties of their elements.
\<close>

record raw_license =
  l_code :: "jsstring option"
  l_name :: "jsstring option"

record raw_metadata =
  m_name :: "jsstring option"
  m_inCatalog :: "bool option"
  m_author :: "jsstring option list option"
  m_license :: "raw_license option"
  m_about :: "jsstring option list option"
  m_wordCount :: "nat option"
  m_lastUpdated :: "jsstring option"

record raw_book =
  b_id :: "nat option"
  b_title :: "jsstring option"
  b_link :: "jsstring option"
  b_metadata :: "raw_metadata option"

text \<open>\<open>x || ''\<close> for an optional string: absent and empty are both falsy.\<close>

definition or_empty :: "jsstring option \<Rightarrow> jsstring" where
  "or_empty x = (case x of None \<Rightarrow> [] | Some s \<Rightarrow> s)"

text \<open>\<open>b.metadata || {}\<close>: an absent metadata object reads as one with no property.\<close>

definition no_metadata :: raw_metadata where
  "no_metadata = \<lparr>m_name = None, m_inCatalog = None, m_author = None, m_license = None,
     m_about = None, m_wordCount = None, m_lastUpdated = None\<rparr>"

definition meta_of :: "raw_book \<Rightarrow> raw_metadata" where
  "meta_of b = (case b_metadata b of None \<Rightarrow> no_metadata | Some m \<Rightarrow> m)"

section \<open>JunkFilter\<close>

definition JUNK_SLUG_KEYWORDS :: "jsstring list" where
  "JUNK_SLUG_KEYWORDS = map js
     [''sandbox'', ''sample'', ''test'', ''demo'', ''h5p'', ''hypothesis'',
      ''import'', ''workshop'', ''template'', ''training'', ''trial'',
      ''temp'', ''-dev'', ''devsite'', ''dev2'']"

definition JUNK_TITLE_KEYWORDS :: "jsstring list" where
  "JUNK_TITLE_KEYWORDS = map js
     [''sandbox'', ''sample'', ''testbook'', ''test book'', ''demo book'',
      ''workshop'', ''template'', ''dev site'', ''dev 2'']"

text \<open>The \<open>slug\<close> and \<open>title\<close> locals of \<open>isJunkBook\<close>.\<close>

definition junk_slug :: "platform \<Rightarrow> raw_book \<Rightarrow> jsstring" where
  "junk_slug pf b =
     (let link = toLowerCase pf (or_empty (b_link b))
      in replace_first (js ''/'') []
           (replace_first (js ''.pressbooks.tru.ca/'') []
              (replace_first (js ''https://'') [] link)))"

definition junk_title :: "platform \<Rightarrow> raw_book \<Rightarrow> jsstring" where
  "junk_title pf b = toLowerCase pf (or_empty (m_name (meta_of b)))"

definition isJunkBook :: "platform \<Rightarrow> raw_book \<Rightarrow> bool" where
  "isJunkBook pf b =
     (if m_inCatalog (meta_of b) = Some True then False
      else if list_ex (\<lambda>k. js_includes (junk_slug pf b) k) JUNK_SLUG_KEYWORDS then True
      else if list_ex (\<lambda>k. js_includes (junk_title pf b) k) JUNK_TITLE_KEYWORDS then True
      else False)"

section \<open>CatalogueEntry\<close>

record entry =
  entry_id :: "nat option"
  title :: jsstring
  link :: jsstring
  author :: jsstring
  license :: jsstring
  subject :: jsstring
  inCatalog :: bool
  wordCount :: nat
  lastUpdated :: jsstring

text \<open>\<open>x || d\<close> for an optional string \<open>x\<close>: the absent and the empty string are falsy.\<close>

definition or_else :: "jsstring option \<Rightarrow> jsstring \<Rightarrow> jsstring" where
  "or_else x d = (case x of None \<Rightarrow> d | Some s \<Rightarrow> if s = [] then d else s)"

fun join :: "jsstring \<Rightarrow> jsstring list \<Rightarrow> jsstring" where
  "join sep [] = []"
| "join sep [x] = x"
| "join sep (x # y # r) = x @ sep @ join sep (y # r)"

text \<open>
  \<open>(Array.isArray(arr) ? arr : []).map(a => a.name).filter(Boolean).join(', ')\<close>, the
  argument being the \<open>name\<close> properties of the array (\<open>None\<close> when it is not an array).
\<close>

definition joined_names :: "jsstring option list option \<Rightarrow> jsstring" where
  "joined_names arr =
     join (js '', '')
       (concat (map (\<lambda>x. case x of None \<Rightarrow> [] | Some n \<Rightarrow> if n = [] then [] else [n])
                    (case arr of None \<Rightarrow> [] | Some xs \<Rightarrow> xs)))"

text \<open>\<open>s.replace(/\/$/, '')\<close>: one slash at the very end is removed.\<close>

definition strip_trailing_slash :: "jsstring \<Rightarrow> jsstring" where
  "strip_trailing_slash s = (if s \<noteq> [] \<and> last s = 47 then butlast s else s)"

definition parseBook :: "raw_book \<Rightarrow> entry" where
  "parseBook b =
     (let meta = meta_of b;
          title = or_else (m_name meta) (or_else (b_title b) (js ''Untitled''))
      in \<lparr>entry_id = b_id b,
          title = trim title,
          link = strip_trailing_slash (or_empty (b_link b)),
          author = joined_names (m_author meta),
          license = (case m_license meta of
                       None \<Rightarrow> []
                     | Some l \<Rightarrow> or_else (l_code l) (or_else (l_name l) [])),
          subject = joined_names (m_about meta),
          inCatalog = (m_inCatalog meta = Some True),
          wordCount = (case m_wordCount meta of None \<Rightarrow> 0 | Some n \<Rightarrow> n),
          lastUpdated = or_empty (m_lastUpdated meta)\<rparr>)"

section \<open>The network\<close>

text \<open>
  What \<open>fetch\<close> gives for one request: the promise rejects with an error (its \<open>name\<close>
  and \<open>message\<close>), or it resolves with a response, of which the handlers read the
  status, one header (\<open>X-WP-TotalPages\<close> for the catalogue, \<open>content-type\<close> for an
  external page) and the body through \<open>json()\<close> or \<open>text()\<close>, which may reject as well.
\<close>

record js_error =
  err_name :: jsstring
  err_message :: jsstring

record 'b http_response =
  status :: nat
  header :: "jsstring option"
  body :: "js_error + 'b"

datatype 'b fetch_result = Rejects js_error | Resolves "'b http_response"

text \<open>\<open>r.ok\<close>.\<close>

definition ok :: "'b http_response \<Rightarrow> bool" where
  "ok r \<longleftrightarrow> 200 \<le> status r \<and> status r \<le> 299"

text \<open>
  What a handler sends: \<open>res.json(x)\<close>, with status 200, or
  \<open>res.status(n).json({ error: msg })\<close>.
\<close>

datatype 'a reply = Json 'a | Error nat jsstring

text \<open>A number in a template literal: its decimal digits.\<close>

fun decimal :: "nat \<Rightarrow> jsstring" where
  "decimal n = (if n < 10 then [48 + n] else decimal (n div 10) @ [48 + n mod 10])"

text \<open>
  \<open>parseInt(s, 10)\<close>: leading white space, an optional sign, then the longest run of
  decimal digits; \<open>None\<close> is NaN. The value is kept exact (JavaScript rounds it to a
  double, which is the same number up to \<open>2 ^ 53\<close>).
\<close>

definition isDigit :: "nat \<Rightarrow> bool" where
  "isDigit c \<longleftrightarrow> 48 \<le> c \<and> c \<le> 57"

definition parseInt10 :: "jsstring \<Rightarrow> int option" where
  "parseInt10 s =
     (let s1 = dropWhile isWhiteSpace s;
          neg = (s1 \<noteq> [] \<and> hd s1 = 45);
          s2 = (if s1 \<noteq> [] \<and> (hd s1 = 45 \<or> hd s1 = 43) then tl s1 else s1);
          ds = takeWhile isDigit s2;
          v = int (foldl (\<lambda>a d. 10 * a + (d - 48)) 0 ds)
      in if ds = [] then None else Some (if neg then - v else v))"

section \<open>CatalogueAggregator\<close>

text \<open>
  The body of a catalogue page as \<open>json()\<close> gives it: an array of records; or a value
  that is not an array, which the handlers either read through its properties like a
  record (an object, a number, a boolean) or cannot read at all, a \<open>TypeError\<close> with
  the given message being raised (\<open>null\<close>, or a string, whose \<open>link\<close> is a function).
\<close>

datatype books_json = JArray "raw_book list" | JRecord raw_book | JThrows jsstring

text \<open>The requests of the catalogue differ in the page number only, which stands for them.\<close>

type_synonym books_fetch = "int \<Rightarrow> books_json fetch_result"

text \<open>\<open>Pressbooks returned HTTP ${r.status} on page ${page}\<close>.\<close>

definition http_on_page :: "nat \<Rightarrow> int \<Rightarrow> jsstring" where
  "http_on_page st page =
     js ''Pressbooks returned HTTP '' @ decimal st @ js '' on page '' @ decimal (nat page)"

text \<open>\<open>parseInt(r.headers.get('X-WP-TotalPages') || '1', 10)\<close>.\<close>

definition totalPages_of :: "'b http_response \<Rightarrow> int option" where
  "totalPages_of r = parseInt10 (or_else (header r) (js ''1''))"

text \<open>
  \<open>Array.prototype.sort\<close> with a comparison function: the sort is stable, and for a
  consistent comparison function the result is the one of insertion sort.
\<close>

fun insort_cmp :: "('a \<Rightarrow> 'a \<Rightarrow> int) \<Rightarrow> 'a \<Rightarrow> 'a list \<Rightarrow> 'a list" where
  "insort_cmp cmp x [] = [x]"
| "insort_cmp cmp x (y # ys) =
     (if cmp x y \<le> 0 then x # y # ys else y # insort_cmp cmp x ys)"

definition sort_cmp :: "('a \<Rightarrow> 'a \<Rightarrow> int) \<Rightarrow> 'a list \<Rightarrow> 'a list" where
  "sort_cmp cmp xs = foldr (insort_cmp cmp) xs []"

text \<open>\<open>allBooks.sort((a, b) => a.title.localeCompare(b.title))\<close>.\<close>

definition sort_by_title :: "platform \<Rightarrow> entry list \<Rightarrow> entry list" where
  "sort_by_title pf es = sort_cmp (\<lambda>a b. localeCompare pf (title a) (title b)) es"

text \<open>
  The loop body of the sequential handler from \<open>for (const b of books)\<close> on: the
  records that are kept, in the shape of \<open>parseBook\<close>, which the handler writes inline.
\<close>

definition shape_books :: "platform \<Rightarrow> bool \<Rightarrow> raw_book list \<Rightarrow> entry list" where
  "shape_books pf showAll books =
     map parseBook (filter (\<lambda>b. \<not> (\<not> showAll \<and> isJunkBook pf b)) books)"

text \<open>\<open>page <= totalPages\<close>, false when \<open>totalPages\<close> is NaN.\<close>

definition page_le :: "int \<Rightarrow> int option \<Rightarrow> bool" where
  "page_le page totalPages = (case totalPages of None \<Rightarrow> False | Some n \<Rightarrow> page \<le> n)"

text \<open>
  The \<open>while\<close> loop of the sequential handler (the root server and the shared proxy).
  The result is the error message thrown, or \<open>allBooks\<close>, with the pages requested.
\<close>

function books_loop ::
  "platform \<Rightarrow> books_fetch \<Rightarrow> bool \<Rightarrow> int \<Rightarrow> int option \<Rightarrow> entry list \<Rightarrow> int list
     \<Rightarrow> (jsstring + entry list) \<times> int list" where
  "books_loop pf fetch showAll page totalPages allBooks reqs =
     (if \<not> page_le page totalPages then (Inr allBooks, reqs)
      else case fetch page of
        Rejects e \<Rightarrow> (Inl (err_message e), reqs @ [page])
      | Resolves r \<Rightarrow>
          if \<not> ok r then (Inl (http_on_page (status r) page), reqs @ [page])
          else let totalPages' = (if page = 1 then totalPages_of r else totalPages)
               in (case body r of
                     Inl e \<Rightarrow> (Inl (err_message e), reqs @ [page])
                   | Inr (JArray books) \<Rightarrow>
                       if books = [] then (Inr allBooks, reqs @ [page])
                       else books_loop pf fetch showAll (page + 1) totalPages'
                              (allBooks @ shape_books pf showAll books) (reqs @ [page])
                   | Inr _ \<Rightarrow> (Inr allBooks, reqs @ [page])))"
  by pat_completeness auto
termination
  by (relation "measures
        [\<lambda>(pf, fetch, showAll, page, totalPages, allBooks, reqs). if page \<le> 1 then 1 else 0,
         \<lambda>(pf, fetch, showAll, page, totalPages, allBooks, reqs).
            nat (1 + the totalPages - page)]")
     (auto simp: page_le_def split: option.splits)

text \<open>The sequential \<open>GET /api/books\<close>: the reply and the pages requested.\<close>

definition books_sequential ::
  "platform \<Rightarrow> books_fetch \<Rightarrow> bool \<Rightarrow> entry list reply \<times> int list" where
  "books_sequential pf fetch showAll =
     (case books_loop pf fetch showAll 1 (Some 1) [] [] of
        (Inl msg, reqs) \<Rightarrow> (Error 502 (js ''Could not fetch book list: '' @ msg), reqs)
      | (Inr allBooks, reqs) \<Rightarrow> (Json (sort_by_title pf allBooks), reqs))"

text \<open>
  The promise of one remaining page in the parallel handler:
  \<open>fetch(url).then(r => { if (!r.ok) throw ...; return r.json(); })\<close>. \<open>Inl\<close> is the
  message of the rejection.
\<close>

definition page_promise :: "books_fetch \<Rightarrow> int \<Rightarrow> jsstring + books_json" where
  "page_promise fetch p =
     (case fetch p of
        Rejects e \<Rightarrow> Inl (err_message e)
      | Resolves r \<Rightarrow>
          if \<not> ok r then Inl (http_on_page (status r) p)
          else (case body r of Inl e \<Rightarrow> Inl (err_message e) | Inr j \<Rightarrow> Inr j))"

text \<open>
  \<open>Promise.all\<close>: when every promise fulfils, the values in the order of the array;
  otherwise the reason of the promise that rejects first. \<open>settle p\<close> is the time at
  which the promise of page \<open>p\<close> settles (promises settling together are taken in the
  order of the array).
\<close>

definition promise_all ::
  "(int \<Rightarrow> nat) \<Rightarrow> (int \<Rightarrow> jsstring + 'a) \<Rightarrow> int list \<Rightarrow> jsstring + 'a list" where
  "promise_all settle promise pages =
     (case filter (\<lambda>p. isl (promise p)) (sort_key settle pages) of
        [] \<Rightarrow> Inr (map (\<lambda>p. projr (promise p)) pages)
      | p # _ \<Rightarrow> Inl (projl (promise p)))"

text \<open>
  \<open>[page1books, ...remainingResults].flat()\<close>: an array is spread, any other value
  stays as one element.
\<close>

definition flat_elems :: "books_json \<Rightarrow> (jsstring + raw_book) list" where
  "flat_elems j =
     (case j of JArray bs \<Rightarrow> map Inr bs | JRecord b \<Rightarrow> [Inr b] | JThrows m \<Rightarrow> [Inl m])"

text \<open>
  \<open>rawBooks.filter(b => showAll || !isJunkBook(b)).map(parseBook)\<close>: the first element
  that cannot be read makes \<open>isJunkBook\<close>, or else \<open>parseBook\<close>, raise its error.
\<close>

definition filter_and_shape ::
  "platform \<Rightarrow> bool \<Rightarrow> (jsstring + raw_book) list \<Rightarrow> jsstring + entry list" where
  "filter_and_shape pf showAll rawBooks =
     (case filter isl rawBooks of
        m # _ \<Rightarrow> Inl (projl m)
      | [] \<Rightarrow> Inr (map parseBook
                    (filter (\<lambda>b. showAll \<or> \<not> isJunkBook pf b) (map projr rawBooks))))"

text \<open>
  The \<open>try\<close> block of the parallel handler (Nova, Companion) up to the sort: the error
  message thrown or the sorted \<open>allBooks\<close>, with the pages requested.
\<close>

definition aggregate_parallel ::
  "platform \<Rightarrow> books_fetch \<Rightarrow> (int \<Rightarrow> nat) \<Rightarrow> bool \<Rightarrow> (jsstring + entry list) \<times> int list" where
  "aggregate_parallel pf fetch settle showAll =
     (case fetch 1 of
        Rejects e \<Rightarrow> (Inl (err_message e), [1])
      | Resolves r1 \<Rightarrow>
          if \<not> ok r1 then (Inl (http_on_page (status r1) 1), [1])
          else (case body r1 of
                  Inl e \<Rightarrow> (Inl (err_message e), [1])
                | Inr page1books \<Rightarrow>
                    let pages = (case totalPages_of r1 of None \<Rightarrow> [] | Some n \<Rightarrow> [2..n])
                    in (case promise_all settle (page_promise fetch) pages of
                          Inl msg \<Rightarrow> (Inl msg, 1 # pages)
                        | Inr remainingResults \<Rightarrow>
                            (case filter_and_shape pf showAll
                                    (concat (map flat_elems (page1books # remainingResults))) of
                               Inl msg \<Rightarrow> (Inl msg, 1 # pages)
                             | Inr allBooks \<Rightarrow> (Inr (sort_by_title pf allBooks), 1 # pages)))))"

section \<open>CatalogueCache\<close>

record cache =
  booksCache :: "entry list option"
  booksCacheTime :: int

definition initial_cache :: cache where
  "initial_cache = \<lparr>booksCache = None, booksCacheTime = 0\<rparr>"

definition BOOKS_CACHE_TTL :: int where
  "BOOKS_CACHE_TTL = 10 * 60 * 1000"

text \<open>
  \<open>!showAll && booksCache && (Date.now() - booksCacheTime) < BOOKS_CACHE_TTL\<close>, \<open>now\<close>
  being what \<open>Date.now()\<close> returns. An array, empty or not, is truthy; \<open>null\<close> is not.
\<close>

definition served_from_cache :: "bool \<Rightarrow> int \<Rightarrow> cache \<Rightarrow> bool" where
  "served_from_cache showAll now c \<longleftrightarrow>
     \<not> showAll \<and> booksCache c \<noteq> None \<and> now - booksCacheTime c < BOOKS_CACHE_TTL"

record books_result =
  reply :: "entry list reply"
  requested :: "int list"
  cache_after :: cache

text \<open>
  The parallel \<open>GET /api/books\<close> (Nova, Companion). \<open>now\<close> is \<open>Date.now()\<close> at the
  cache check and \<open>now'\<close> is \<open>Date.now()\<close> at the cache write.
\<close>

definition books_parallel ::
  "platform \<Rightarrow> books_fetch \<Rightarrow> (int \<Rightarrow> nat) \<Rightarrow> int \<Rightarrow> int \<Rightarrow> bool \<Rightarrow> cache \<Rightarrow> books_result" where
  "books_parallel pf fetch settle now now' showAll c =
     (if served_from_cache showAll now c
      then \<lparr>reply = Json (the (booksCache c)), requested = [], cache_after = c\<rparr>
      else case aggregate_parallel pf fetch settle showAll of
        (Inl msg, reqs) \<Rightarrow>
          \<lparr>reply = Error 502 (js ''Could not fetch book list: '' @ msg),
           requested = reqs, cache_after = c\<rparr>
      | (Inr allBooks, reqs) \<Rightarrow>
          \<lparr>reply = Json allBooks, requested = reqs,
           cache_after = (if \<not> showAll
                          then \<lparr>booksCache = Some allBooks, booksCacheTime = now'\<rparr>
                          else c)\<rparr>)"

section \<open>ContentRetriever\<close>

text \<open>\<open>!x\<close> for a query parameter: it is absent or the empty string.\<close>

definition missing :: "jsstring option \<Rightarrow> bool" where
  "missing x \<longleftrightarrow> x = None \<or> x = Some []"

text \<open>
  \<open>parsed.hostname.endsWith('.pressbooks.tru.ca') || parsed.hostname === 'pressbooks.tru.ca'\<close>.
\<close>

definition trusted_host :: "jsstring \<Rightarrow> bool" where
  "trusted_host h \<longleftrightarrow>
     endsWith h (js ''.pressbooks.tru.ca'') \<or> h = js ''pressbooks.tru.ca''"

text \<open>
  The \<open>try\<close> block that guards both handlers: the message of the 400 reply it sends, or
  \<open>None\<close> when it lets the request through.
\<close>

definition check_bookUrl :: "platform \<Rightarrow> jsstring \<Rightarrow> jsstring option" where
  "check_bookUrl pf bookUrl =
     (case parseURL pf bookUrl of
        None \<Rightarrow> Some (js ''bookUrl is not a valid URL.'')
      | Some parsed \<Rightarrow>
          if \<not> trusted_host (hostname parsed)
          then Some (js ''bookUrl must be a pressbooks.tru.ca subdomain.'')
          else None)"

text \<open>
  A JSON document as \<open>json()\<close> gives it: \<open>null\<close>, on which reading a property raises a
  \<open>TypeError\<close> with the given message, or an object.
\<close>

datatype 'a document = Null jsstring | Document 'a

record raw_chapter =
  c_id :: "nat option"
  c_title :: "jsstring option"
  c_slug :: "jsstring option"
  c_link :: "jsstring option"
  c_status :: "jsstring option"
  c_has_post_content :: bool
  c_word_count :: "nat option"

record raw_part =
  p_id :: "nat option"
  p_title :: "jsstring option"
  p_chapters :: "raw_chapter list option"

text \<open>The table of contents document: its \<open>parts\<close> property.\<close>

type_synonym raw_toc = "raw_part list option"

record toc_chapter =
  tc_id :: "nat option"
  tc_title :: jsstring
  tc_slug :: "jsstring option"
  tc_link :: "jsstring option"
  tc_wordCount :: nat

record toc_part =
  tp_id :: "nat option"
  tp_title :: jsstring
  tp_chapters :: "toc_chapter list"

definition simplify_chapter :: "raw_chapter \<Rightarrow> toc_chapter" where
  "simplify_chapter c =
     \<lparr>tc_id = c_id c, tc_title = or_else (c_title c) (js ''Untitled Chapter''),
      tc_slug = c_slug c, tc_link = c_link c,
      tc_wordCount = (case c_word_count c of None \<Rightarrow> 0 | Some n \<Rightarrow> n)\<rparr>"

definition simplify_toc :: "raw_toc \<Rightarrow> toc_part list" where
  "simplify_toc parts =
     filter (\<lambda>p. tp_chapters p \<noteq> [])
       (map (\<lambda>p. \<lparr>tp_id = p_id p, tp_title = or_else (p_title p) (js ''Untitled Part''),
                   tp_chapters =
                     map simplify_chapter
                       (filter (\<lambda>c. c_status c = Some (js ''publish'') \<and> c_has_post_content c)
                          (case p_chapters p of None \<Rightarrow> [] | Some cs \<Rightarrow> cs))\<rparr>)
          (filter (\<lambda>p. case p_chapters p of None \<Rightarrow> False | Some cs \<Rightarrow> cs \<noteq> [])
             (case parts of None \<Rightarrow> [] | Some ps \<Rightarrow> ps)))"

text \<open>
  \<open>GET /api/toc\<close>: the reply and the URLs requested from the network, in order.
\<close>

definition getToc ::
  "platform \<Rightarrow> (jsstring \<Rightarrow> raw_toc document fetch_result) \<Rightarrow> jsstring option
     \<Rightarrow> toc_part list reply \<times> jsstring list" where
  "getToc pf fetch bookUrl =
     (if missing bookUrl
      then (Error 400 (js ''bookUrl query parameter is required.''), [])
      else case check_bookUrl pf (the bookUrl) of
        Some msg \<Rightarrow> (Error 400 msg, [])
      | None \<Rightarrow>
          let tocUrl = the bookUrl @ js ''/wp-json/pressbooks/v2/toc'';
              failed = (\<lambda>msg. Error 502 (js ''Could not fetch table of contents: '' @ msg))
          in (case fetch tocUrl of
                Rejects e \<Rightarrow> (failed (err_message e), [tocUrl])
              | Resolves r \<Rightarrow>
                  if \<not> ok r then (failed (js ''HTTP '' @ decimal (status r)), [tocUrl])
                  else (case body r of
                          Inl e \<Rightarrow> (failed (err_message e), [tocUrl])
                        | Inr (Null msg) \<Rightarrow> (failed msg, [tocUrl])
                        | Inr (Document toc) \<Rightarrow> (Json (simplify_toc toc), [tocUrl]))))"

text \<open>
  The chapter document: \<open>chapter.id\<close>, \<open>chapter?.content?.rendered\<close>,
  \<open>chapter?.title?.rendered\<close> and \<open>chapter?.link\<close>.
\<close>

record raw_chapter_doc =
  ch_id :: "nat option"
  ch_content_rendered :: "jsstring option"
  ch_title_rendered :: "jsstring option"
  ch_link :: "jsstring option"

record chapter_content =
  cc_id :: "nat option"
  cc_title :: jsstring
  cc_link :: jsstring
  cc_wordCount :: nat
  cc_text :: jsstring

text \<open>
  \<open>text.split(/\s+/).filter(Boolean).length\<close>: the number of maximal runs of code units
  that are not white space (\<open>\s\<close> is the white space of \<open>trim\<close>).
\<close>

function count_words :: "jsstring \<Rightarrow> nat" where
  "count_words [] = 0"
| "count_words (c # cs) =
     (if isWhiteSpace c then count_words cs
      else Suc (count_words (dropWhile (\<lambda>c. \<not> isWhiteSpace c) cs)))"
  by pat_completeness auto
termination
  by (relation "measure length") (auto simp: le_imp_less_Suc length_dropWhile_le)

definition chapter_of :: "raw_chapter_doc \<Rightarrow> chapter_content" where
  "chapter_of chapter =
     (let htmlContent = or_empty (ch_content_rendered chapter);
          title = or_else (ch_title_rendered chapter) (js ''Untitled Chapter'');
          link = or_empty (ch_link chapter);
          plainText = htmlToPlainText htmlContent
      in \<lparr>cc_id = ch_id chapter, cc_title = stripHtml title, cc_link = link,
          cc_wordCount = count_words plainText, cc_text = plainText\<rparr>)"

text \<open>\<open>GET /api/chapter\<close>: the reply and the URLs requested from the network.\<close>

definition getChapter ::
  "platform \<Rightarrow> (jsstring \<Rightarrow> raw_chapter_doc document fetch_result) \<Rightarrow> jsstring option
     \<Rightarrow> jsstring option \<Rightarrow> chapter_content reply \<times> jsstring list" where
  "getChapter pf fetch bookUrl chapterId =
     (if missing bookUrl \<or> missing chapterId
      then (Error 400 (js ''bookUrl and chapterId query parameters are required.''), [])
      else case check_bookUrl pf (the bookUrl) of
        Some msg \<Rightarrow> (Error 400 msg, [])
      | None \<Rightarrow>
          let chapterUrl =
                the bookUrl @ js ''/wp-json/pressbooks/v2/chapters/'' @ the chapterId;
              failed = (\<lambda>msg. Error 502 (js ''Could not fetch chapter: '' @ msg))
          in (case fetch chapterUrl of
                Rejects e \<Rightarrow> (failed (err_message e), [chapterUrl])
              | Resolves r \<Rightarrow>
                  if \<not> ok r then (failed (js ''HTTP '' @ decimal (status r)), [chapterUrl])
                  else (case body r of
                          Inl e \<Rightarrow> (failed (err_message e), [chapterUrl])
                        | Inr (Null msg) \<Rightarrow> (failed msg, [chapterUrl])
                        | Inr (Document chapter) \<Rightarrow>
                            (Json (chapter_of chapter), [chapterUrl]))))"

section \<open>UrlTextFetcher\<close>

text \<open>
  \<open>FETCH_URL_BLOCKLIST.some(re => re.test(parsed.hostname))\<close>, one predicate for each
  regular expression, all anchored at the start of the host name.
\<close>

definition FETCH_URL_BLOCKLIST :: "(jsstring \<Rightarrow> bool) list" where
  "FETCH_URL_BLOCKLIST =
     [\<lambda>h. prefix_ci (js ''localhost'') h,
      \<lambda>h. prefix (js ''127.'') h,
      \<lambda>h. prefix (js ''10.'') h,
      \<lambda>h. prefix (js ''192.168.'') h,
      \<lambda>h. (case h of
              a # b # c # d # x # y # e # _ \<Rightarrow>
                [a, b, c, d] = js ''172.'' \<and> e = 46 \<and>
                (x = 49 \<and> 54 \<le> y \<and> y \<le> 57 \<or> x = 50 \<and> isDigit y \<or>
                 x = 51 \<and> (y = 48 \<or> y = 49))
            | _ \<Rightarrow> False)]"

definition blocked_host :: "jsstring \<Rightarrow> bool" where
  "blocked_host h = list_ex (\<lambda>re. re h) FETCH_URL_BLOCKLIST"

text \<open>
  \<open>html.match(/<title[^>]*>([^<]*)<\/title>/i)\<close>: the capture group of the first match.
\<close>

definition match_title :: "jsstring \<Rightarrow> jsstring option" where
  "match_title s =
     (if \<not> prefix_ci (js ''<title'') s then None
      else (case dropWhile (\<lambda>c. c \<noteq> 62) (drop 6 s) of
              [] \<Rightarrow> None
            | _ # r \<Rightarrow>
                let inner = takeWhile (\<lambda>c. c \<noteq> 60) r
                in if prefix_ci (js ''</title>'') (drop (length inner) r)
                   then Some inner else None))"

fun titleMatch :: "jsstring \<Rightarrow> jsstring option" where
  "titleMatch [] = None"
| "titleMatch (c # cs) =
     (case match_title (c # cs) of Some t \<Rightarrow> Some t | None \<Rightarrow> titleMatch cs)"

record page_extract =
  x_title :: jsstring
  x_text :: jsstring
  x_wordCount :: nat

text \<open>
  \<open>GET /api/fetch-url\<close>: the reply and the URLs requested from the network. The timer
  that aborts the request shows as a rejection of \<open>fetch\<close> named \<open>AbortError\<close>.
\<close>

definition fetchUrl ::
  "platform \<Rightarrow> (jsstring \<Rightarrow> jsstring fetch_result) \<Rightarrow> jsstring option
     \<Rightarrow> page_extract reply \<times> jsstring list" where
  "fetchUrl pf fetch url =
     (if missing url then (Error 400 (js ''url query parameter is required.''), [])
      else case parseURL pf (the url) of
        None \<Rightarrow> (Error 400 (js ''Invalid URL.''), [])
      | Some parsed \<Rightarrow>
          if protocol parsed \<notin> {js ''http:'', js ''https:''}
          then (Error 400 (js ''Only http and https URLs are supported.''), [])
          else if blocked_host (hostname parsed)
          then (Error 400 (js ''That host is not allowed.''), [])
          else
            let caught = (\<lambda>e. if err_name e = js ''AbortError''
                   then Error 504
                     (js ''Request timed out '' @ [0x2014] @
                      js '' the URL took too long to respond.'')
                   else Error 502 (js ''Could not fetch URL: '' @ err_message e))
            in (case fetch (the url) of
                  Rejects e \<Rightarrow> (caught e, [the url])
                | Resolves r \<Rightarrow>
                    if \<not> ok r
                    then (caught \<lparr>err_name = js ''Error'',
                            err_message = js ''Remote server returned HTTP '' @
                              decimal (status r)\<rparr>, [the url])
                    else
                      let contentType = or_empty (header r)
                      in if \<not> js_includes contentType (js ''text/html'') \<and>
                            \<not> js_includes contentType (js ''text/plain'') \<and>
                            \<not> js_includes contentType (js ''application/xhtml'')
                         then (Error 415 (js ''Unsupported content type: '' @
                                 takeWhile (\<lambda>c. c \<noteq> 59) contentType), [the url])
                         else (case body r of
                                 Inl e \<Rightarrow> (caught e, [the url])
                               | Inr html \<Rightarrow>
                                   let title = (case titleMatch html of
                                                  Some t \<Rightarrow> trim t
                                                | None \<Rightarrow> hostname parsed);
                                       text = htmlToPlainText html
                                   in if length text < 20
                                      then (Error 422
                                              (js ''No readable text found at that URL.''),
                                            [the url])
                                      else (Json \<lparr>x_title = title, x_text = text,
                                              x_wordCount = count_words text\<rparr>,
                                            [the url]))))"

section \<open>Notions of the specification\<close>

text \<open>
  The records of a page for the sequential handler: those of its array (the loop stops
  at any other body, and takes nothing from it).
\<close>

definition page_array :: "books_fetch \<Rightarrow> int \<Rightarrow> raw_book list" where
  "page_array fetch p =
     (case fetch p of
        Rejects e \<Rightarrow> []
      | Resolves r \<Rightarrow> (case body r of Inr (JArray bs) \<Rightarrow> bs | _ \<Rightarrow> []))"

text \<open>
  The records of a page for the parallel handler, as \<open>flat()\<close> leaves them: those of its
  array, or the body itself when it is a value read like a record.
\<close>

definition page_flat :: "books_fetch \<Rightarrow> int \<Rightarrow> raw_book list" where
  "page_flat fetch p =
     (case fetch p of
        Rejects e \<Rightarrow> []
      | Resolves r \<Rightarrow>
          (case body r of Inr (JArray bs) \<Rightarrow> bs | Inr (JRecord b) \<Rightarrow> [b] | _ \<Rightarrow> []))"

text \<open>
  The entries in the order of their discovery: page by page in the order of \<open>pages\<close>,
  then by position within the page, junk left out unless \<open>showAll\<close>.
\<close>

definition discovered ::
  "platform \<Rightarrow> bool \<Rightarrow> (int \<Rightarrow> raw_book list) \<Rightarrow> int list \<Rightarrow> entry list" where
  "discovered pf showAll records pages =
     map parseBook (filter (\<lambda>b. showAll \<or> \<not> isJunkBook pf b) (concat (map records pages)))"

text \<open>The pages 2 to N that the first page declares through \<open>X-WP-TotalPages\<close>.\<close>

definition declared_pages :: "books_fetch \<Rightarrow> int list" where
  "declared_pages fetch =
     (case fetch 1 of
        Rejects e \<Rightarrow> []
      | Resolves r1 \<Rightarrow> (case totalPages_of r1 of None \<Rightarrow> [] | Some n \<Rightarrow> [2..n]))"

text \<open>
  The total that the loop of the sequential handler compares page numbers with once
  page 1 has been read (\<open>None\<close> is NaN).
\<close>

definition declared_total :: "books_fetch \<Rightarrow> int option" where
  "declared_total fetch =
     (case fetch 1 of Rejects e \<Rightarrow> None | Resolves r1 \<Rightarrow> totalPages_of r1)"

text \<open>
  A page that is fetched with a success status and holds a non-empty array; and a page
  that marks the end of the data: fetched with a success status, its body being an empty
  array or not an array.
\<close>

definition good_page :: "books_fetch \<Rightarrow> int \<Rightarrow> bool" where
  "good_page fetch p \<longleftrightarrow>
     (\<exists>r bs. fetch p = Resolves r \<and> ok r \<and> body r = Inr (JArray bs) \<and> bs \<noteq> [])"

definition end_of_data :: "books_fetch \<Rightarrow> int \<Rightarrow> bool" where
  "end_of_data fetch p \<longleftrightarrow>
     (\<exists>r j. fetch p = Resolves r \<and> ok r \<and> body r = Inr j \<and> (\<forall>bs. j = JArray bs \<longrightarrow> bs = []))"

section \<open>Inputs for evaluation\<close>

text \<open>
  A platform for evaluation on ASCII input: ASCII lower-casing, comparison by code
  units, and a URL parser given by a table.
\<close>

definition ascii_lower :: "jsstring \<Rightarrow> jsstring" where
  "ascii_lower s = map (\<lambda>c. if 65 \<le> c \<and> c \<le> 90 then c + 32 else c) s"

fun codeunit_compare :: "jsstring \<Rightarrow> jsstring \<Rightarrow> int" where
  "codeunit_compare [] [] = 0"
| "codeunit_compare [] (y # ys) = -1"
| "codeunit_compare (x # xs) [] = 1"
| "codeunit_compare (x # xs) (y # ys) =
     (if x < y then -1 else if y < x then 1 else codeunit_compare xs ys)"

definition ascii_platform :: "(jsstring \<times> url) list \<Rightarrow> platform" where
  "ascii_platform urls =
     \<lparr>toLowerCase = ascii_lower, localeCompare = codeunit_compare,
      parseURL = map_of urls\<rparr>"

definition flagged_sandbox :: raw_book where
  "flagged_sandbox =
     \<lparr>b_id = Some 7, b_title = None,
      b_link = Some (js ''https://sandbox.pressbooks.tru.ca/''),
      b_metadata = Some (no_metadata\<lparr>m_name := Some (js ''Sandbox test book''),
                                      m_inCatalog := Some True\<rparr>)\<rparr>"

definition plain_sandbox :: raw_book where
  "plain_sandbox =
     \<lparr>b_id = Some 8, b_title = None,
      b_link = Some (js ''https://MySandbox2.pressbooks.tru.ca/''),
      b_metadata = None\<rparr>"

text \<open>Upstream catalogues: a record with a name, a page, and what each page request gives.\<close>

definition fetch_failed :: js_error where
  "fetch_failed = \<lparr>err_name = js ''TypeError'', err_message = js ''fetch failed''\<rparr>"

definition book :: "nat \<Rightarrow> string \<Rightarrow> raw_book" where
  "book i nm = \<lparr>b_id = Some i, b_title = None, b_link = None,
     b_metadata = Some (no_metadata\<lparr>m_name := Some (js nm)\<rparr>)\<rparr>"

definition page_response :: "nat \<Rightarrow> string \<Rightarrow> raw_book list \<Rightarrow> books_json fetch_result" where
  "page_response st n books =
     Resolves \<lparr>status = st, header = Some (js n), body = Inr (JArray books)\<rparr>"

definition transport_failure_upstream :: books_fetch where
  "transport_failure_upstream p =
     (if p = 1 then page_response 200 ''2'' [book 1 ''Algebra''] else Rejects fetch_failed)"

definition status_failure_upstream :: books_fetch where
  "status_failure_upstream p =
     (if p = 1 then page_response 200 ''3'' [book 1 ''Zoology'']
      else if p = 2 then page_response 503 [] []
      else page_response 200 [] [book 3 ''Botany''])"

definition gap_upstream :: books_fetch where
  "gap_upstream p =
     (if p = 1 then page_response 200 ''3'' [book 1 ''Zoology'']
      else if p = 2 then page_response 200 ''3'' []
      else page_response 200 ''3'' [book 3 ''Botany''])"

definition blank_name_upstream :: books_fetch where
  "blank_name_upstream p = page_response 200 ''1'' [book 9 '' '']"

definition empty_catalogue :: books_fetch where
  "empty_catalogue p = page_response 200 ''1'' []"

definition stale_cache :: cache where
  "stale_cache = \<lparr>booksCache = Some [parseBook (book 1 ''Zoology'')], booksCacheTime = 0\<rparr>"

text \<open>The URLs of the examples, with the protocol and host name the \<open>URL\<close> constructor gives.\<close>

definition sample_urls :: "(jsstring \<times> url) list" where
  "sample_urls =
     [(js ''https://evil.com'', \<lparr>protocol = js ''https:'', hostname = js ''evil.com''\<rparr>),
      (js ''https://pressbooks.tru.ca.evil.com'',
       \<lparr>protocol = js ''https:'', hostname = js ''pressbooks.tru.ca.evil.com''\<rparr>),
      (js ''https://physics.pressbooks.tru.ca'',
       \<lparr>protocol = js ''https:'', hostname = js ''physics.pressbooks.tru.ca''\<rparr>),
      (js ''http://127.0.0.1/x'', \<lparr>protocol = js ''http:'', hostname = js ''127.0.0.1''\<rparr>),
      (js ''http://10.0.0.5/'', \<lparr>protocol = js ''http:'', hostname = js ''10.0.0.5''\<rparr>),
      (js ''ftp://127.0.0.1/x'', \<lparr>protocol = js ''ftp:'', hostname = js ''127.0.0.1''\<rparr>),
      (js ''https://example.org/'', \<lparr>protocol = js ''https:'', hostname = js ''example.org''\<rparr>)]"

definition unreachable :: "jsstring \<Rightarrow> 'b fetch_result" where
  "unreachable u = Rejects fetch_failed"

definition short_page :: "jsstring \<Rightarrow> jsstring fetch_result" where
  "short_page u =
     Resolves \<lparr>status = 200, header = Some (js ''text/html; charset=utf-8''),
       body = Inr (js ''<html><title>Hi</title><p>Too short</p></html>'')\<rparr>"

text \<open>A catalogue of three pages in which titles repeat across pages.\<close>

definition duplicates_upstream :: books_fetch where
  "duplicates_upstream p =
     (if p = 1 then page_response 200 ''3'' [book 1 ''Physics'', book 2 ''Algebra'']
      else if p = 2 then page_response 200 ''3'' [book 3 ''Physics'']
      else page_response 200 ''3'' [book 4 ''Algebra'', book 5 ''Physics''])"

section \<open>Properties of the JunkFilter\<close>

text \<open>
  Claim C3. A record whose \<open>metadata.inCatalog\<close> is \<open>true\<close> is never junk, whatever its
  title and link are; and a record whose flag is not \<open>true\<close> (false or absent, or no
  metadata at all) and whose slug, as \<open>isJunkBook\<close> derives it from the lower-cased
  link, contains \<open>sandbox\<close> is junk.
\<close>

theorem isJunkBook_flag_and_sandbox:
  "(m_inCatalog (meta_of b) = Some True \<longrightarrow> \<not> isJunkBook pf b) \<and>
   (m_inCatalog (meta_of b) \<noteq> Some True \<and> js_includes (junk_slug pf b) (js ''sandbox'')
      \<longrightarrow> isJunkBook pf b)"
  by (simp add: isJunkBook_def JUNK_SLUG_KEYWORDS_def)

theorem isJunkBook_flag_and_sandbox_witness:
  "m_inCatalog (meta_of flagged_sandbox) = Some True \<and>
   \<not> isJunkBook (ascii_platform []) flagged_sandbox \<and>
   m_inCatalog (meta_of plain_sandbox) \<noteq> Some True \<and>
   js_includes (junk_slug (ascii_platform []) plain_sandbox) (js ''sandbox'') \<and>
   isJunkBook (ascii_platform []) plain_sandbox"
proof -
  have flag: "m_inCatalog (meta_of flagged_sandbox) = Some True"
    by (simp add: flagged_sandbox_def meta_of_def no_metadata_def)
  have no_flag: "m_inCatalog (meta_of plain_sandbox) \<noteq> Some True"
    by (simp add: plain_sandbox_def meta_of_def no_metadata_def)
  have slug: "js_includes (junk_slug (ascii_platform []) plain_sandbox) (js ''sandbox'')"
    by (simp add: junk_slug_def plain_sandbox_def ascii_platform_def ascii_lower_def
          js_def or_empty_def)
  have kept: "\<not> isJunkBook (ascii_platform []) flagged_sandbox"
    using isJunkBook_flag_and_sandbox [of flagged_sandbox "ascii_platform []"] flag
    by blast
  have dropped: "isJunkBook (ascii_platform []) plain_sandbox"
    using isJunkBook_flag_and_sandbox [of plain_sandbox "ascii_platform []"] no_flag slug
    by blast
  from flag kept no_flag slug dropped show ?thesis by blast
qed

section \<open>Properties of the HtmlTextExtractor\<close>

lemmas html_eval =
  htmlToPlainText_def js_def match_literal_def match_run_def match_tag_def
  match_block_tag_def match_element_def prefix_ci_def canonicalize_def trim_def
  isWhiteSpace_def BLOCK_TAGS_def










section \<open>Properties of the CatalogueEntry\<close>

lemmas books_eval =
  books_parallel_def served_from_cache_def aggregate_parallel_def promise_all_def
  page_promise_def ok_def totalPages_of_def parseInt10_def isDigit_def or_else_def
  filter_and_shape_def flat_elems_def sort_by_title_def sort_cmp_def parseBook_def
  isJunkBook_def junk_slug_def junk_title_def meta_of_def no_metadata_def or_empty_def
  JUNK_SLUG_KEYWORDS_def JUNK_TITLE_KEYWORDS_def joined_names_def strip_trailing_slash_def
  http_on_page_def ascii_platform_def ascii_lower_def trim_def isWhiteSpace_def js_def
  initial_cache_def BOOKS_CACHE_TTL_def book_def page_response_def fetch_failed_def

lemmas loop_eval =
  books_sequential_def page_le_def shape_books_def

text \<open>
  Claim C9 at a record whose name is one space. The name is truthy, so the placeholder
  \<open>Untitled\<close> is not used, and \<open>trim\<close>, applied after the fallback, leaves the empty
  title: the pass returns, and caches, an entry with an empty title.
\<close>

theorem books_parallel_blank_title:
  "reply (books_parallel (ascii_platform []) blank_name_upstream (\<lambda>_. 0) 0 5 False initial_cache)
     = Json [\<lparr>entry_id = Some 9, title = [], link = [], author = [], license = [],
              subject = [], inCatalog = False, wordCount = 0, lastUpdated = []\<rparr>]"
  by (simp add: books_eval blank_name_upstream_def)

section \<open>Properties of the CatalogueCache\<close>

lemma aggregate_parallel_requests: "snd (aggregate_parallel pf fetch settle showAll) \<noteq> []"
  by (simp add: aggregate_parallel_def Let_def split: fetch_result.splits sum.splits)

text \<open>
  Claim C6, as the code has it. A \<open>listBooks(false)\<close> call is served from the cache, with
  no request to the network, if and only if the cache has been written (\<open>booksCache\<close> is
  not \<open>null\<close>; the cached sequence may be empty) and less than ten minutes have passed
  since \<open>booksCacheTime\<close>; the reply is then the cached sequence and the cache is as it was.
\<close>

theorem cache_fresh_iff_populated:
  "(requested (books_parallel pf fetch settle now now' False c) = []
      \<longleftrightarrow> booksCache c \<noteq> None \<and> now - booksCacheTime c < 10 * 60 * 1000) \<and>
   (booksCache c = Some es \<and> now - booksCacheTime c < 10 * 60 * 1000
      \<longrightarrow> books_parallel pf fetch settle now now' False c
            = \<lparr>reply = Json es, requested = [], cache_after = c\<rparr>)"
  using aggregate_parallel_requests [of pf fetch settle False]
  by (auto simp: books_parallel_def served_from_cache_def BOOKS_CACHE_TTL_def
           split: prod.splits sum.splits)

theorem cache_fresh_iff_populated_witness:
  "booksCache stale_cache = Some [parseBook (book 1 ''Zoology'')] \<and>
   599999 - booksCacheTime stale_cache < (10 * 60 * 1000 :: int) \<and>
   books_parallel (ascii_platform []) transport_failure_upstream (\<lambda>_. 0) 599999 600005 False
       stale_cache
     = \<lparr>reply = Json [parseBook (book 1 ''Zoology'')], requested = [], cache_after = stale_cache\<rparr> \<and>
   \<not> (booksCache stale_cache \<noteq> None \<and> 600000 - booksCacheTime stale_cache < (10 * 60 * 1000 :: int)) \<and>
   requested (books_parallel (ascii_platform []) transport_failure_upstream (\<lambda>_. 0) 600000 600005
       False stale_cache) \<noteq> []"
proof -
  have fresh: "booksCache stale_cache = Some [parseBook (book 1 ''Zoology'')] \<and>
      599999 - booksCacheTime stale_cache < (10 * 60 * 1000 :: int)"
    and stale: "\<not> (booksCache stale_cache \<noteq> None \<and>
      600000 - booksCacheTime stale_cache < (10 * 60 * 1000 :: int))"
    by (simp_all add: stale_cache_def)
  from fresh
    cache_fresh_iff_populated [of "ascii_platform []" transport_failure_upstream "\<lambda>_. 0" 599999
      600005 stale_cache "[parseBook (book 1 ''Zoology'')]"]
  have served: "books_parallel (ascii_platform []) transport_failure_upstream (\<lambda>_. 0) 599999
       600005 False stale_cache
     = \<lparr>reply = Json [parseBook (book 1 ''Zoology'')], requested = [], cache_after = stale_cache\<rparr>"
    by blast
  from stale
    cache_fresh_iff_populated [of "ascii_platform []" transport_failure_upstream "\<lambda>_. 0" 600000
      600005 stale_cache "[]"]
  have refetched: "requested (books_parallel (ascii_platform []) transport_failure_upstream
       (\<lambda>_. 0) 600000 600005 False stale_cache) \<noteq> []"
    by blast
  from fresh served stale refetched show ?thesis by blast
qed

text \<open>
  Claim C6, as the specification states it, fails for an empty cached sequence. A pass
  over an empty catalogue caches the empty array, and the next call within ten minutes
  is served from it: no page is requested, although the upstream would fail.
\<close>

theorem cache_fresh_when_empty:
  "cache_after (books_parallel (ascii_platform []) empty_catalogue (\<lambda>_. 0) 0 5 False initial_cache)
     = \<lparr>booksCache = Some [], booksCacheTime = 5\<rparr> \<and>
   books_parallel (ascii_platform []) transport_failure_upstream (\<lambda>_. 0) 1000 2000 False
       \<lparr>booksCache = Some [], booksCacheTime = 5\<rparr>
     = \<lparr>reply = Json [], requested = [],
        cache_after = \<lparr>booksCache = Some [], booksCacheTime = 5\<rparr>\<rparr>"
  by (simp add: books_eval empty_catalogue_def)

text \<open>
  Claim C10. When the parallel handler replies with an error, the cache (entries and
  capture time) is what it was before the call; the cache changes only when the whole
  aggregation, from the first page to the sort, has succeeded, and it then holds the
  list that is sent.
\<close>

theorem failure_keeps_cache:
  "(reply (books_parallel pf fetch settle now now' showAll c) = Error st msg
      \<longrightarrow> cache_after (books_parallel pf fetch settle now now' showAll c) = c) \<and>
   (cache_after (books_parallel pf fetch settle now now' showAll c) \<noteq> c
      \<longrightarrow> \<not> showAll \<and>
          (\<exists>allBooks reqs. aggregate_parallel pf fetch settle showAll = (Inr allBooks, reqs) \<and>
             reply (books_parallel pf fetch settle now now' showAll c) = Json allBooks \<and>
             cache_after (books_parallel pf fetch settle now now' showAll c)
               = \<lparr>booksCache = Some allBooks, booksCacheTime = now'\<rparr>))"
  by (auto simp: books_parallel_def split: prod.splits sum.splits if_splits)

theorem failure_keeps_cache_witness:
  "reply (books_parallel (ascii_platform []) status_failure_upstream (\<lambda>_. 0) 600000 600005 False
       stale_cache)
     = Error 502 (js ''Could not fetch book list: Pressbooks returned HTTP 503 on page 2'') \<and>
   cache_after (books_parallel (ascii_platform []) status_failure_upstream (\<lambda>_. 0) 600000 600005
       False stale_cache) = stale_cache"
proof -
  have failed: "reply (books_parallel (ascii_platform []) status_failure_upstream (\<lambda>_. 0) 600000
       600005 False stale_cache)
     = Error 502 (js ''Could not fetch book list: Pressbooks returned HTTP 503 on page 2'')"
    by (simp add: books_eval status_failure_upstream_def stale_cache_def)
  from failed
    failure_keeps_cache [of "ascii_platform []" status_failure_upstream "\<lambda>_. 0" 600000 600005
      False stale_cache 502
      "js ''Could not fetch book list: Pressbooks returned HTTP 503 on page 2''"]
  have kept: "cache_after (books_parallel (ascii_platform []) status_failure_upstream (\<lambda>_. 0)
       600000 600005 False stale_cache) = stale_cache"
    by blast
  from failed kept show ?thesis by blast
qed

section \<open>Properties of the ContentRetriever\<close>

lemmas url_eval =
  fetchUrl_def getToc_def getChapter_def check_bookUrl_def trusted_host_def endsWith_def
  suffix_to_prefix missing_def blocked_host_def FETCH_URL_BLOCKLIST_def sample_urls_def
  ascii_platform_def js_def prefix_ci_def canonicalize_def isDigit_def

lemma trusted_host_iff:
  "trusted_host h \<longleftrightarrow>
     h = js ''pressbooks.tru.ca'' \<or> (\<exists>sub. h = sub @ js ''.'' @ js ''pressbooks.tru.ca'')"
  by (auto simp: trusted_host_def endsWith_def suffix_def js_def)

text \<open>
  Claim C2. A \<open>bookUrl\<close> whose host name is neither \<open>pressbooks.tru.ca\<close> nor ends with
  \<open>.pressbooks.tru.ca\<close> gets a 400 reply from \<open>getToc\<close> and from \<open>getChapter\<close> and no
  request goes to the network; and whenever one of the two handlers does send a request,
  the \<open>bookUrl\<close> was parsed and its host name passed that test.
\<close>

theorem untrusted_bookUrl_rejected:
  "(parseURL pf u = Some parsed \<and> hostname parsed \<noteq> js ''pressbooks.tru.ca'' \<and>
    \<not> (\<exists>sub. hostname parsed = sub @ js ''.'' @ js ''pressbooks.tru.ca'')
      \<longrightarrow> (\<exists>msg. getToc pf fetch (Some u) = (Error 400 msg, [])) \<and>
          (\<exists>msg. getChapter pf fetch' (Some u) chapterId = (Error 400 msg, []))) \<and>
   (snd (getToc pf fetch bookUrl) \<noteq> [] \<or> snd (getChapter pf fetch' bookUrl chapterId) \<noteq> []
      \<longrightarrow> (\<exists>u parsed. bookUrl = Some u \<and> parseURL pf u = Some parsed \<and>
            (hostname parsed = js ''pressbooks.tru.ca'' \<or>
             (\<exists>sub. hostname parsed = sub @ js ''.'' @ js ''pressbooks.tru.ca''))))"
proof (intro conjI impI)
  assume h: "parseURL pf u = Some parsed \<and> hostname parsed \<noteq> js ''pressbooks.tru.ca'' \<and>
    \<not> (\<exists>sub. hostname parsed = sub @ js ''.'' @ js ''pressbooks.tru.ca'')"
  then have "\<not> trusted_host (hostname parsed)" by (simp add: trusted_host_iff)
  with h have "check_bookUrl pf u = Some (js ''bookUrl must be a pressbooks.tru.ca subdomain.'')"
    by (simp add: check_bookUrl_def)
  then show "\<exists>msg. getToc pf fetch (Some u) = (Error 400 msg, [])"
    and "\<exists>msg. getChapter pf fetch' (Some u) chapterId = (Error 400 msg, [])"
    by (simp_all add: getToc_def getChapter_def)
next
  assume "snd (getToc pf fetch bookUrl) \<noteq> [] \<or> snd (getChapter pf fetch' bookUrl chapterId) \<noteq> []"
  then have "\<not> missing bookUrl \<and> check_bookUrl pf (the bookUrl) = None"
    by (auto simp: getToc_def getChapter_def split: if_splits option.splits)
  then obtain u where u: "bookUrl = Some u" and "check_bookUrl pf u = None"
    by (auto simp: missing_def)
  then obtain parsed where "parseURL pf u = Some parsed" and "trusted_host (hostname parsed)"
    by (auto simp: check_bookUrl_def split: option.splits if_splits)
  with u show "\<exists>u parsed. bookUrl = Some u \<and> parseURL pf u = Some parsed \<and>
            (hostname parsed = js ''pressbooks.tru.ca'' \<or>
             (\<exists>sub. hostname parsed = sub @ js ''.'' @ js ''pressbooks.tru.ca''))"
    by (auto simp: trusted_host_iff)
qed

theorem untrusted_bookUrl_rejected_witness:
  "(\<exists>msg. getToc (ascii_platform sample_urls) unreachable (Some (js ''https://evil.com''))
           = (Error 400 msg, [])) \<and>
   (\<exists>msg. getChapter (ascii_platform sample_urls) unreachable (Some (js ''https://evil.com''))
           (Some (js ''12'')) = (Error 400 msg, [])) \<and>
   (\<exists>msg. getToc (ascii_platform sample_urls) unreachable
           (Some (js ''https://pressbooks.tru.ca.evil.com'')) = (Error 400 msg, [])) \<and>
   (\<exists>msg. getChapter (ascii_platform sample_urls) unreachable
           (Some (js ''https://pressbooks.tru.ca.evil.com'')) (Some (js ''12''))
           = (Error 400 msg, [])) \<and>
   snd (getToc (ascii_platform sample_urls) unreachable
          (Some (js ''https://physics.pressbooks.tru.ca''))) \<noteq> [] \<and>
   (\<exists>u parsed. Some (js ''https://physics.pressbooks.tru.ca'') = Some u \<and>
      parseURL (ascii_platform sample_urls) u = Some parsed \<and>
      (hostname parsed = js ''pressbooks.tru.ca'' \<or>
       (\<exists>sub. hostname parsed = sub @ js ''.'' @ js ''pressbooks.tru.ca'')))"
proof -
  let ?pf = "ascii_platform sample_urls"
  have sfx: "\<And>h. (\<exists>sub. h = sub @ js ''.'' @ js ''pressbooks.tru.ca'')
               \<longleftrightarrow> suffix (js ''.'' @ js ''pressbooks.tru.ca'') h"
    by (auto simp: suffix_def)
  have evil: "parseURL ?pf (js ''https://evil.com'')
        = Some \<lparr>protocol = js ''https:'', hostname = js ''evil.com''\<rparr> \<and>
      hostname \<lparr>protocol = js ''https:'', hostname = js ''evil.com''\<rparr> \<noteq> js ''pressbooks.tru.ca'' \<and>
      \<not> (\<exists>sub. hostname \<lparr>protocol = js ''https:'', hostname = js ''evil.com''\<rparr>
                  = sub @ js ''.'' @ js ''pressbooks.tru.ca'')"
    unfolding sfx by (simp add: url_eval)
  have lookalike: "parseURL ?pf (js ''https://pressbooks.tru.ca.evil.com'')
        = Some \<lparr>protocol = js ''https:'', hostname = js ''pressbooks.tru.ca.evil.com''\<rparr> \<and>
      hostname \<lparr>protocol = js ''https:'', hostname = js ''pressbooks.tru.ca.evil.com''\<rparr>
        \<noteq> js ''pressbooks.tru.ca'' \<and>
      \<not> (\<exists>sub. hostname \<lparr>protocol = js ''https:'', hostname = js ''pressbooks.tru.ca.evil.com''\<rparr>
                  = sub @ js ''.'' @ js ''pressbooks.tru.ca'')"
    unfolding sfx by (simp add: url_eval)
  have reached: "snd (getToc ?pf unreachable (Some (js ''https://physics.pressbooks.tru.ca''))) \<noteq> []"
    by (simp add: url_eval unreachable_def)
  note evil_rejected = untrusted_bookUrl_rejected [of ?pf "js ''https://evil.com''"
      "\<lparr>protocol = js ''https:'', hostname = js ''evil.com''\<rparr>" unreachable unreachable
      "Some (js ''12'')" "Some (js ''https://physics.pressbooks.tru.ca'')"]
  note lookalike_rejected = untrusted_bookUrl_rejected [of ?pf
      "js ''https://pressbooks.tru.ca.evil.com''"
      "\<lparr>protocol = js ''https:'', hostname = js ''pressbooks.tru.ca.evil.com''\<rparr>"
      unreachable unreachable "Some (js ''12'')"
      "Some (js ''https://physics.pressbooks.tru.ca'')"]
  from evil evil_rejected
  have r1: "(\<exists>msg. getToc ?pf unreachable (Some (js ''https://evil.com'')) = (Error 400 msg, []))"
    and r2: "(\<exists>msg. getChapter ?pf unreachable (Some (js ''https://evil.com''))
           (Some (js ''12'')) = (Error 400 msg, []))"
    by blast+
  from lookalike lookalike_rejected
  have r3: "(\<exists>msg. getToc ?pf unreachable
           (Some (js ''https://pressbooks.tru.ca.evil.com'')) = (Error 400 msg, []))"
    and r4: "(\<exists>msg. getChapter ?pf unreachable
           (Some (js ''https://pressbooks.tru.ca.evil.com'')) (Some (js ''12''))
           = (Error 400 msg, []))"
    by blast+
  from reached evil_rejected
  have r5: "(\<exists>u parsed. Some (js ''https://physics.pressbooks.tru.ca'') = Some u \<and>
      parseURL ?pf u = Some parsed \<and>
      (hostname parsed = js ''pressbooks.tru.ca'' \<or>
       (\<exists>sub. hostname parsed = sub @ js ''.'' @ js ''pressbooks.tru.ca'')))"
    by blast
  from r1 r2 r3 r4 reached r5 show ?thesis by blast
qed

section \<open>Properties of the UrlTextFetcher\<close>

text \<open>
  Claim C7, as the code has it. For an \<open>http\<close> or \<open>https\<close> URL whose host name starts
  with \<open>127.\<close> or \<open>10.\<close> the reply is 400, \<open>That host is not allowed.\<close>, and nothing is
  requested. A URL of any other scheme, whatever its host name, gets the reply 400,
  \<open>Only http and https URLs are supported.\<close>, and nothing is requested; so a URL with
  such a host name is refused with a 400 and without a request in every case. A page
  that was fetched with a success status and a supported content type and whose
  extracted text has fewer than 20 code units gets the reply 422.
\<close>

theorem fetchUrl_blocked_and_short:
  "(u \<noteq> [] \<and> parseURL pf u = Some parsed \<and> protocol parsed \<in> {js ''http:'', js ''https:''} \<and>
    (prefix (js ''127.'') (hostname parsed) \<or> prefix (js ''10.'') (hostname parsed))
      \<longrightarrow> fetchUrl pf fetch (Some u) = (Error 400 (js ''That host is not allowed.''), [])) \<and>
   (u \<noteq> [] \<and> parseURL pf u = Some parsed \<and> protocol parsed \<notin> {js ''http:'', js ''https:''}
      \<longrightarrow> fetchUrl pf fetch (Some u)
            = (Error 400 (js ''Only http and https URLs are supported.''), [])) \<and>
   (parseURL pf u = Some parsed \<and>
    (prefix (js ''127.'') (hostname parsed) \<or> prefix (js ''10.'') (hostname parsed))
      \<longrightarrow> (\<exists>msg. fetchUrl pf fetch (Some u) = (Error 400 msg, []))) \<and>
   (u \<noteq> [] \<and> parseURL pf u = Some parsed \<and> protocol parsed \<in> {js ''http:'', js ''https:''} \<and>
    \<not> blocked_host (hostname parsed) \<and> fetch u = Resolves r \<and> ok r \<and> header r = Some ct \<and>
    (js_includes ct (js ''text/html'') \<or> js_includes ct (js ''text/plain'') \<or>
     js_includes ct (js ''application/xhtml'')) \<and>
    body r = Inr html \<and> length (htmlToPlainText html) < 20
      \<longrightarrow> fetchUrl pf fetch (Some u)
            = (Error 422 (js ''No readable text found at that URL.''), [u]))"
proof (intro conjI impI)
  assume h: "u \<noteq> [] \<and> parseURL pf u = Some parsed \<and>
    protocol parsed \<in> {js ''http:'', js ''https:''} \<and>
    (prefix (js ''127.'') (hostname parsed) \<or> prefix (js ''10.'') (hostname parsed))"
  then have "blocked_host (hostname parsed)"
    by (auto simp: blocked_host_def FETCH_URL_BLOCKLIST_def)
  with h show "fetchUrl pf fetch (Some u) = (Error 400 (js ''That host is not allowed.''), [])"
    by (simp add: fetchUrl_def missing_def)
next
  assume "u \<noteq> [] \<and> parseURL pf u = Some parsed \<and>
    protocol parsed \<notin> {js ''http:'', js ''https:''}"
  then show "fetchUrl pf fetch (Some u)
      = (Error 400 (js ''Only http and https URLs are supported.''), [])"
    by (simp add: fetchUrl_def missing_def)
next
  assume h: "parseURL pf u = Some parsed \<and>
    (prefix (js ''127.'') (hostname parsed) \<or> prefix (js ''10.'') (hostname parsed))"
  then have "blocked_host (hostname parsed)"
    by (auto simp: blocked_host_def FETCH_URL_BLOCKLIST_def)
  with h show "\<exists>msg. fetchUrl pf fetch (Some u) = (Error 400 msg, [])"
    by (simp add: fetchUrl_def missing_def)
next
  assume "u \<noteq> [] \<and> parseURL pf u = Some parsed \<and>
    protocol parsed \<in> {js ''http:'', js ''https:''} \<and>
    \<not> blocked_host (hostname parsed) \<and> fetch u = Resolves r \<and> ok r \<and> header r = Some ct \<and>
    (js_includes ct (js ''text/html'') \<or> js_includes ct (js ''text/plain'') \<or>
     js_includes ct (js ''application/xhtml'')) \<and>
    body r = Inr html \<and> length (htmlToPlainText html) < 20"
  then show "fetchUrl pf fetch (Some u)
            = (Error 422 (js ''No readable text found at that URL.''), [u])"
    by (auto simp: fetchUrl_def missing_def or_empty_def Let_def)
qed

theorem fetchUrl_blocked_and_short_witness:
  "fetchUrl (ascii_platform sample_urls) unreachable (Some (js ''http://127.0.0.1/x''))
     = (Error 400 (js ''That host is not allowed.''), []) \<and>
   protocol \<lparr>protocol = js ''ftp:'', hostname = js ''127.0.0.1''\<rparr>
     \<notin> {js ''http:'', js ''https:''} \<and>
   fetchUrl (ascii_platform sample_urls) unreachable (Some (js ''ftp://127.0.0.1/x''))
     = (Error 400 (js ''Only http and https URLs are supported.''), []) \<and>
   fetchUrl (ascii_platform sample_urls) unreachable (Some (js ''http://10.0.0.5/''))
     = (Error 400 (js ''That host is not allowed.''), []) \<and>
   length (htmlToPlainText (js ''<html><title>Hi</title><p>Too short</p></html>'')) < 20 \<and>
   fetchUrl (ascii_platform sample_urls) short_page (Some (js ''https://example.org/''))
     = (Error 422 (js ''No readable text found at that URL.''), [js ''https://example.org/''])"
proof -
  let ?pf = "ascii_platform sample_urls"
  have loopback: "js ''http://127.0.0.1/x'' \<noteq> [] \<and>
      parseURL ?pf (js ''http://127.0.0.1/x'')
        = Some \<lparr>protocol = js ''http:'', hostname = js ''127.0.0.1''\<rparr> \<and>
      protocol \<lparr>protocol = js ''http:'', hostname = js ''127.0.0.1''\<rparr>
        \<in> {js ''http:'', js ''https:''} \<and>
      (prefix (js ''127.'') (hostname \<lparr>protocol = js ''http:'', hostname = js ''127.0.0.1''\<rparr>) \<or>
       prefix (js ''10.'') (hostname \<lparr>protocol = js ''http:'', hostname = js ''127.0.0.1''\<rparr>))"
    by (simp add: url_eval)
  have intranet: "js ''http://10.0.0.5/'' \<noteq> [] \<and>
      parseURL ?pf (js ''http://10.0.0.5/'')
        = Some \<lparr>protocol = js ''http:'', hostname = js ''10.0.0.5''\<rparr> \<and>
      protocol \<lparr>protocol = js ''http:'', hostname = js ''10.0.0.5''\<rparr>
        \<in> {js ''http:'', js ''https:''} \<and>
      (prefix (js ''127.'') (hostname \<lparr>protocol = js ''http:'', hostname = js ''10.0.0.5''\<rparr>) \<or>
       prefix (js ''10.'') (hostname \<lparr>protocol = js ''http:'', hostname = js ''10.0.0.5''\<rparr>))"
    by (simp add: url_eval)
  have scheme: "js ''ftp://127.0.0.1/x'' \<noteq> [] \<and>
      parseURL ?pf (js ''ftp://127.0.0.1/x'')
        = Some \<lparr>protocol = js ''ftp:'', hostname = js ''127.0.0.1''\<rparr> \<and>
      protocol \<lparr>protocol = js ''ftp:'', hostname = js ''127.0.0.1''\<rparr>
        \<notin> {js ''http:'', js ''https:''}"
    by (simp add: url_eval)
  from scheme
    fetchUrl_blocked_and_short [of "js ''ftp://127.0.0.1/x''" ?pf
      "\<lparr>protocol = js ''ftp:'', hostname = js ''127.0.0.1''\<rparr>" unreachable]
  have r0: "fetchUrl ?pf unreachable (Some (js ''ftp://127.0.0.1/x''))
      = (Error 400 (js ''Only http and https URLs are supported.''), [])"
    by blast
  have short: "length (htmlToPlainText (js ''<html><title>Hi</title><p>Too short</p></html>'')) < 20"
    by (simp add: html_eval)
  have fetched: "js ''https://example.org/'' \<noteq> [] \<and>
      parseURL ?pf (js ''https://example.org/'')
        = Some \<lparr>protocol = js ''https:'', hostname = js ''example.org''\<rparr> \<and>
      protocol \<lparr>protocol = js ''https:'', hostname = js ''example.org''\<rparr>
        \<in> {js ''http:'', js ''https:''} \<and>
      \<not> blocked_host (hostname \<lparr>protocol = js ''https:'', hostname = js ''example.org''\<rparr>) \<and>
      short_page (js ''https://example.org/'')
        = Resolves \<lparr>status = 200, header = Some (js ''text/html; charset=utf-8''),
            body = Inr (js ''<html><title>Hi</title><p>Too short</p></html>'')\<rparr> \<and>
      ok \<lparr>status = 200, header = Some (js ''text/html; charset=utf-8''),
            body = Inr (js ''<html><title>Hi</title><p>Too short</p></html>'')\<rparr> \<and>
      header \<lparr>status = 200, header = Some (js ''text/html; charset=utf-8''),
            body = Inr (js ''<html><title>Hi</title><p>Too short</p></html>'')\<rparr>
        = Some (js ''text/html; charset=utf-8'') \<and>
      (js_includes (js ''text/html; charset=utf-8'') (js ''text/html'') \<or>
       js_includes (js ''text/html; charset=utf-8'') (js ''text/plain'') \<or>
       js_includes (js ''text/html; charset=utf-8'') (js ''application/xhtml'')) \<and>
      body \<lparr>status = 200, header = Some (js ''text/html; charset=utf-8''),
            body = Inr (js ''<html><title>Hi</title><p>Too short</p></html>'')\<rparr>
        = Inr (js ''<html><title>Hi</title><p>Too short</p></html>'')"
    by (simp add: url_eval short_page_def ok_def)
  from loopback
    fetchUrl_blocked_and_short [of "js ''http://127.0.0.1/x''" ?pf
      "\<lparr>protocol = js ''http:'', hostname = js ''127.0.0.1''\<rparr>" unreachable]
  have r1: "fetchUrl ?pf unreachable (Some (js ''http://127.0.0.1/x''))
      = (Error 400 (js ''That host is not allowed.''), [])"
    by blast
  from intranet
    fetchUrl_blocked_and_short [of "js ''http://10.0.0.5/''" ?pf
      "\<lparr>protocol = js ''http:'', hostname = js ''10.0.0.5''\<rparr>" unreachable]
  have r2: "fetchUrl ?pf unreachable (Some (js ''http://10.0.0.5/''))
      = (Error 400 (js ''That host is not allowed.''), [])"
    by blast
  from fetched short
    fetchUrl_blocked_and_short [of "js ''https://example.org/''" ?pf
      "\<lparr>protocol = js ''https:'', hostname = js ''example.org''\<rparr>" short_page
      "\<lparr>status = 200, header = Some (js ''text/html; charset=utf-8''),
            body = Inr (js ''<html><title>Hi</title><p>Too short</p></html>'')\<rparr>"
      "js ''text/html; charset=utf-8''"
      "js ''<html><title>Hi</title><p>Too short</p></html>''"]
  have r3: "fetchUrl ?pf short_page (Some (js ''https://example.org/''))
      = (Error 422 (js ''No readable text found at that URL.''), [js ''https://example.org/''])"
    by blast
  from r1 scheme r0 r2 short r3 show ?thesis by blast
qed

text \<open>
  Claim C7, as the specification states it, fails for a URL of another scheme: the
  scheme is checked before the block list, so \<open>ftp://127.0.0.1/x\<close> is refused as an
  unsupported scheme, not as a blocked host.
\<close>

theorem fetchUrl_scheme_checked_first:
  "fetchUrl (ascii_platform sample_urls) unreachable (Some (js ''ftp://127.0.0.1/x''))
     = (Error 400 (js ''Only http and https URLs are supported.''), [])"
  by (simp add: url_eval)

section \<open>Properties of the CatalogueAggregator\<close>

lemma set_insort_cmp: "set (insort_cmp cmp x ys) = insert x (set ys)"
  by (induction ys) auto

lemma sorted_insort_cmp:
  assumes total: "\<And>a b. cmp a b \<le> 0 \<or> cmp b a \<le> 0"
    and trans: "\<And>a b c. cmp a b \<le> 0 \<Longrightarrow> cmp b c \<le> 0 \<Longrightarrow> cmp a c \<le> 0"
    and sorted: "sorted_wrt (\<lambda>a b. cmp a b \<le> 0) ys"
  shows "sorted_wrt (\<lambda>a b. cmp a b \<le> 0) (insort_cmp cmp x ys)"
  using sorted
proof (induction ys)
  case Nil
  show ?case by simp
next
  case (Cons y ys)
  show ?case
  proof (cases "cmp x y \<le> 0")
    case True
    with Cons.prems trans have "\<forall>z\<in>set (y # ys). cmp x z \<le> 0" by auto
    with True Cons.prems show ?thesis by simp
  next
    case False
    with total have "cmp y x \<le> 0" by blast
    with False Cons show ?thesis by (auto simp: set_insort_cmp)
  qed
qed

lemma sorted_sort_cmp:
  assumes "\<And>a b. cmp a b \<le> 0 \<or> cmp b a \<le> 0"
    and "\<And>a b c. cmp a b \<le> 0 \<Longrightarrow> cmp b c \<le> 0 \<Longrightarrow> cmp a c \<le> 0"
  shows "sorted_wrt (\<lambda>a b. cmp a b \<le> 0) (sort_cmp cmp xs)"
  unfolding sort_cmp_def
  by (induction xs) (simp_all add: sorted_insort_cmp [OF assms])

lemma filter_insort_cmp:
  assumes refl: "\<And>k. c k k \<le> (0::int)"
  shows "filter (\<lambda>e. f e = k) (insort_cmp (\<lambda>a b. c (f a) (f b)) x ys)
           = (if f x = k then [x] else []) @ filter (\<lambda>e. f e = k) ys"
  using refl by (induction ys) auto

lemma filter_sort_cmp:
  assumes refl: "\<And>k. c k k \<le> (0::int)"
  shows "filter (\<lambda>e. f e = k) (sort_cmp (\<lambda>a b. c (f a) (f b)) xs) = filter (\<lambda>e. f e = k) xs"
proof (induction xs)
  case Nil
  show ?case by (simp add: sort_cmp_def)
next
  case (Cons x xs)
  have "filter (\<lambda>e. f e = k) (insort_cmp (\<lambda>a b. c (f a) (f b)) x
           (sort_cmp (\<lambda>a b. c (f a) (f b)) xs))
          = (if f x = k then [x] else []) @
            filter (\<lambda>e. f e = k) (sort_cmp (\<lambda>a b. c (f a) (f b)) xs)"
    by (rule filter_insort_cmp [OF refl])
  with Cons show ?case by (simp add: sort_cmp_def)
qed

lemma promise_all_Inr:
  "promise_all settle promise pages = Inr vs \<longleftrightarrow>
     (\<forall>p\<in>set pages. \<not> isl (promise p)) \<and> vs = map (\<lambda>p. projr (promise p)) pages"
proof -
  have "filter (\<lambda>p. isl (promise p)) (sort_key settle pages) = []
          \<longleftrightarrow> (\<forall>p\<in>set pages. \<not> isl (promise p))"
    by (simp add: filter_empty_conv)
  then show ?thesis
    by (auto simp: promise_all_def split: list.splits)
qed

lemma promise_all_Inl:
  assumes "promise_all settle promise pages = Inl m"
  shows "\<exists>q\<in>set pages. promise q = Inl m \<and>
           (\<forall>p\<in>set pages. isl (promise p) \<longrightarrow> settle q \<le> settle p)"
proof -
  from assms obtain q rest
    where hd: "filter (\<lambda>p. isl (promise p)) (sort_key settle pages) = q # rest"
      and m: "m = projl (promise q)"
    by (auto simp: promise_all_def split: list.splits)
  have "sorted (map settle (filter (\<lambda>p. isl (promise p)) (sort_key settle pages)))"
    by (rule sorted_filter) simp
  with hd have first: "\<forall>p\<in>set rest. settle q \<le> settle p" by simp
  have "q \<in> set (filter (\<lambda>p. isl (promise p)) (sort_key settle pages))"
    unfolding hd by simp
  then have q: "q \<in> set pages" "isl (promise q)" by simp_all
  have "\<forall>p\<in>set pages. isl (promise p) \<longrightarrow> settle q \<le> settle p"
  proof (intro ballI impI)
    fix p assume "p \<in> set pages" "isl (promise p)"
    then have "p \<in> set (q # rest)" unfolding hd [symmetric] by simp
    with first show "settle q \<le> settle p" by auto
  qed
  with q m show ?thesis by (auto simp: isl_def)
qed

lemma good_page_not_failing: "good_page fetch p \<Longrightarrow> \<not> isl (page_promise fetch p)"
  by (auto simp: good_page_def page_promise_def)

lemma good_page_not_end: "good_page fetch p \<Longrightarrow> \<not> end_of_data fetch p"
  by (auto simp: good_page_def end_of_data_def)

lemma end_of_data_not_failing: "end_of_data fetch p \<Longrightarrow> \<not> isl (page_promise fetch p)"
  by (auto simp: end_of_data_def page_promise_def)

lemma books_loop_spec:
  "books_loop pf fetch showAll page tp acc reqs = (res, out) \<Longrightarrow>
   \<exists>k. page - 1 \<le> k \<and> (page_le page tp \<longrightarrow> page \<le> k) \<and> out = reqs @ [page..k] \<and>
       (\<forall>p. page \<le> p \<and> p < k \<longrightarrow> good_page fetch p) \<and>
       (page \<le> k \<and> isl (page_promise fetch k) \<and> res = Inl (projl (page_promise fetch k)) \<or>
        (page \<le> k \<longrightarrow> \<not> isl (page_promise fetch k)) \<and>
        res = Inr (acc @ concat (map (\<lambda>p. shape_books pf showAll (page_array fetch p))
                                     [page..k])))"
proof (induction pf fetch showAll page tp acc reqs arbitrary: res out rule: books_loop.induct)
  case (1 pf fetch showAll page tp acc reqs)
  note run = "1.prems" [unfolded books_loop.simps [of pf fetch showAll page tp acc reqs]]
  show ?case
  proof (cases "page_le page tp")
    case False
    with run have "res = Inr acc" "out = reqs" by simp_all
    with False show ?thesis by (intro exI [of _ "page - 1"]) auto
  next
    case le: True
    show ?thesis
    proof (cases "good_page fetch page")
      case False
      with le run have out: "out = reqs @ [page]"
        by (auto simp: good_page_def Let_def split: fetch_result.splits sum.splits
              books_json.splits if_splits)
      from False le run
      have "isl (page_promise fetch page) \<and> res = Inl (projl (page_promise fetch page)) \<or>
            \<not> isl (page_promise fetch page) \<and>
            res = Inr (acc @ shape_books pf showAll (page_array fetch page))"
        by (auto simp: good_page_def page_promise_def page_array_def shape_books_def Let_def
              split: fetch_result.splits sum.splits books_json.splits if_splits)
      with out show ?thesis by (intro exI [of _ page]) auto
    next
      case True
      then obtain r bs where r: "fetch page = Resolves r" "ok r" "body r = Inr (JArray bs)"
          "bs \<noteq> []"
        by (auto simp: good_page_def)
      let ?tp = "if page = 1 then totalPages_of r else tp"
      from le r run
      have rec: "books_loop pf fetch showAll (page + 1) ?tp
                   (acc @ shape_books pf showAll bs) (reqs @ [page]) = (res, out)"
        by (simp add: Let_def)
      from "1.IH" [OF _ r(1) _ refl r(3) _ r(4) rec] le r(2)
      obtain k where k: "page \<le> k" "out = (reqs @ [page]) @ [page + 1..k]"
        "\<forall>p. page + 1 \<le> p \<and> p < k \<longrightarrow> good_page fetch p"
        "page + 1 \<le> k \<and> isl (page_promise fetch k) \<and> res = Inl (projl (page_promise fetch k)) \<or>
         (page + 1 \<le> k \<longrightarrow> \<not> isl (page_promise fetch k)) \<and>
         res = Inr ((acc @ shape_books pf showAll bs) @
                    concat (map (\<lambda>p. shape_books pf showAll (page_array fetch p))
                                [page + 1..k]))"
        by auto
      from k(1) have upto: "[page..k] = page # [page + 1..k]" by (simp add: upto_rec1)
      with k(2) have out: "out = reqs @ [page..k]" by simp
      from r have here: "page_array fetch page = bs" by (simp add: page_array_def)
      have good: "\<forall>p. page \<le> p \<and> p < k \<longrightarrow> good_page fetch p"
      proof (intro allI impI)
        fix p
        assume p: "page \<le> p \<and> p < k"
        show "good_page fetch p"
        proof (cases "p = page")
          case True
          with \<open>good_page fetch page\<close> show ?thesis by simp
        next
          case False
          with p have "page + 1 \<le> p \<and> p < k" by arith
          with k(3) show ?thesis by blast
        qed
      qed
      from k(4) good_page_not_failing [OF True]
      have "page \<le> k \<and> isl (page_promise fetch k) \<and> res = Inl (projl (page_promise fetch k)) \<or>
        (page \<le> k \<longrightarrow> \<not> isl (page_promise fetch k)) \<and>
        res = Inr (acc @ concat (map (\<lambda>p. shape_books pf showAll (page_array fetch p))
                                     [page..k]))"
        unfolding upto by (cases "k = page") (auto simp: here)
      with k(1) out good show ?thesis by (intro exI [of _ k]) simp
    qed
  qed
qed

lemma books_sequential_spec:
  obtains k where "1 \<le> k" and "snd (books_sequential pf fetch showAll) = [1..k]"
    and "\<forall>p. 1 \<le> p \<and> p < k \<longrightarrow> good_page fetch p"
    and "isl (page_promise fetch k) \<and>
         fst (books_sequential pf fetch showAll)
           = Error 502 (js ''Could not fetch book list: '' @ projl (page_promise fetch k)) \<or>
         \<not> isl (page_promise fetch k) \<and>
         fst (books_sequential pf fetch showAll)
           = Json (sort_by_title pf
               (concat (map (\<lambda>p. shape_books pf showAll (page_array fetch p)) [1..k])))"
proof -
  obtain res out where run: "books_loop pf fetch showAll 1 (Some 1) [] [] = (res, out)"
    by (cases "books_loop pf fetch showAll 1 (Some 1) [] []") blast
  from books_loop_spec [OF run] obtain k
    where k: "1 \<le> k" "out = [1..k]" "\<forall>p. 1 \<le> p \<and> p < k \<longrightarrow> good_page fetch p"
      "isl (page_promise fetch k) \<and> res = Inl (projl (page_promise fetch k)) \<or>
       \<not> isl (page_promise fetch k) \<and>
       res = Inr (concat (map (\<lambda>p. shape_books pf showAll (page_array fetch p)) [1..k]))"
    by (auto simp: page_le_def)
  from run k(2) have "snd (books_sequential pf fetch showAll) = [1..k]"
    by (simp add: books_sequential_def split: sum.splits)
  moreover from run k(4)
  have "isl (page_promise fetch k) \<and>
         fst (books_sequential pf fetch showAll)
           = Error 502 (js ''Could not fetch book list: '' @ projl (page_promise fetch k)) \<or>
         \<not> isl (page_promise fetch k) \<and>
         fst (books_sequential pf fetch showAll)
           = Json (sort_by_title pf
               (concat (map (\<lambda>p. shape_books pf showAll (page_array fetch p)) [1..k])))"
    by (auto simp: books_sequential_def)
  ultimately show thesis using k(1) k(3) that by blast
qed

lemma aggregate_parallel_cases:
  "aggregate_parallel pf fetch settle showAll =
     (case page_promise fetch 1 of
        Inl m \<Rightarrow> (Inl m, [1])
      | Inr page1books \<Rightarrow>
          (case promise_all settle (page_promise fetch) (declared_pages fetch) of
             Inl m \<Rightarrow> (Inl m, 1 # declared_pages fetch)
           | Inr remainingResults \<Rightarrow>
               (case filter_and_shape pf showAll
                       (concat (map flat_elems (page1books # remainingResults))) of
                  Inl m \<Rightarrow> (Inl m, 1 # declared_pages fetch)
                | Inr allBooks \<Rightarrow> (Inr (sort_by_title pf allBooks), 1 # declared_pages fetch))))"
  by (simp add: aggregate_parallel_def page_promise_def declared_pages_def Let_def
        split: fetch_result.splits sum.splits)

lemma page_promise_Inl_iff:
  "page_promise fetch q = Inl m \<longleftrightarrow>
     (\<exists>e. fetch q = Rejects e \<and> m = err_message e) \<or>
     (\<exists>r. fetch q = Resolves r \<and> \<not> ok r \<and> m = http_on_page (status r) q) \<or>
     (\<exists>r e. fetch q = Resolves r \<and> ok r \<and> body r = Inl e \<and> m = err_message e)"
  by (auto simp: page_promise_def split: fetch_result.splits sum.splits)

text \<open>
  Claim C4, as the code has it. If the fetch of a requested page fails, the whole
  operation fails with a 502 reply, and no list of entries is sent. In the parallel
  handler the message is the one of the failing page whose promise settles first; in the
  sequential handler it is the one of the failing page. The message of a failing page
  carries its number and its status when the status is not a success; for a transport
  failure and for a body that cannot be read it is the message of the platform's error.
\<close>

theorem failed_page_fails_listBooks:
  "(\<not> served_from_cache showAll now c \<and>
    p \<in> set (requested (books_parallel pf fetch settle now now' showAll c)) \<and>
    isl (page_promise fetch p)
      \<longrightarrow> (\<exists>q m. q \<in> set (requested (books_parallel pf fetch settle now now' showAll c)) \<and>
             page_promise fetch q = Inl m \<and>
             (\<forall>p'\<in>set (requested (books_parallel pf fetch settle now now' showAll c)).
                 isl (page_promise fetch p') \<longrightarrow> settle q \<le> settle p') \<and>
             reply (books_parallel pf fetch settle now now' showAll c)
               = Error 502 (js ''Could not fetch book list: '' @ m))) \<and>
   (p \<in> set (snd (books_sequential pf fetch showAll)) \<and> isl (page_promise fetch p)
      \<longrightarrow> (\<exists>m. page_promise fetch p = Inl m \<and>
             fst (books_sequential pf fetch showAll)
               = Error 502 (js ''Could not fetch book list: '' @ m))) \<and>
   (page_promise fetch q = Inl m \<longleftrightarrow>
     (\<exists>e. fetch q = Rejects e \<and> m = err_message e) \<or>
     (\<exists>r. fetch q = Resolves r \<and> \<not> ok r \<and>
          m = js ''Pressbooks returned HTTP '' @ decimal (status r) @ js '' on page '' @
              decimal (nat q)) \<or>
     (\<exists>r e. fetch q = Resolves r \<and> ok r \<and> body r = Inl e \<and> m = err_message e))"
proof (intro conjI impI)
  let ?R = "books_parallel pf fetch settle now now' showAll c"
  assume h: "\<not> served_from_cache showAll now c \<and> p \<in> set (requested ?R) \<and>
    isl (page_promise fetch p)"
  show "\<exists>q m. q \<in> set (requested ?R) \<and> page_promise fetch q = Inl m \<and>
          (\<forall>p'\<in>set (requested ?R). isl (page_promise fetch p') \<longrightarrow> settle q \<le> settle p') \<and>
          reply ?R = Error 502 (js ''Could not fetch book list: '' @ m)"
  proof (cases "page_promise fetch 1")
    case (Inl m)
    with h have "requested ?R = [1]"
      and "reply ?R = Error 502 (js ''Could not fetch book list: '' @ m)"
      by (simp_all add: books_parallel_def aggregate_parallel_cases)
    with Inl show ?thesis by auto
  next
    case (Inr page1books)
    with h have reqs: "requested ?R = 1 # declared_pages fetch"
      by (simp add: books_parallel_def aggregate_parallel_cases split: sum.splits)
    with h Inr have p: "p \<in> set (declared_pages fetch)" by auto
    with h obtain m
      where all: "promise_all settle (page_promise fetch) (declared_pages fetch) = Inl m"
      using promise_all_Inr [of settle "page_promise fetch" "declared_pages fetch"]
      by (cases "promise_all settle (page_promise fetch) (declared_pages fetch)") auto
    from promise_all_Inl [OF all] obtain q
      where q: "q \<in> set (declared_pages fetch)" "page_promise fetch q = Inl m"
        "\<forall>p'\<in>set (declared_pages fetch). isl (page_promise fetch p') \<longrightarrow> settle q \<le> settle p'"
      by blast
    from h Inr all have "reply ?R = Error 502 (js ''Could not fetch book list: '' @ m)"
      by (simp add: books_parallel_def aggregate_parallel_cases)
    with q reqs Inr show ?thesis by (intro exI [of _ q] exI [of _ m]) auto
  qed
next
  assume h: "p \<in> set (snd (books_sequential pf fetch showAll)) \<and> isl (page_promise fetch p)"
  obtain k where k: "1 \<le> k" "snd (books_sequential pf fetch showAll) = [1..k]"
    "\<forall>p. 1 \<le> p \<and> p < k \<longrightarrow> good_page fetch p"
    "isl (page_promise fetch k) \<and>
         fst (books_sequential pf fetch showAll)
           = Error 502 (js ''Could not fetch book list: '' @ projl (page_promise fetch k)) \<or>
         \<not> isl (page_promise fetch k) \<and>
         fst (books_sequential pf fetch showAll)
           = Json (sort_by_title pf
               (concat (map (\<lambda>p. shape_books pf showAll (page_array fetch p)) [1..k])))"
    by (rule books_sequential_spec)
  from h k(2) have "1 \<le> p" "p \<le> k" by simp_all
  with h k(3) good_page_not_failing have "p = k" by (metis order_le_less)
  with h k(4) show "\<exists>m. page_promise fetch p = Inl m \<and>
             fst (books_sequential pf fetch showAll)
               = Error 502 (js ''Could not fetch book list: '' @ m)"
    by (auto simp: isl_def)
next
  show "page_promise fetch q = Inl m \<longleftrightarrow>
     (\<exists>e. fetch q = Rejects e \<and> m = err_message e) \<or>
     (\<exists>r. fetch q = Resolves r \<and> \<not> ok r \<and>
          m = js ''Pressbooks returned HTTP '' @ decimal (status r) @ js '' on page '' @
              decimal (nat q)) \<or>
     (\<exists>r e. fetch q = Resolves r \<and> ok r \<and> body r = Inl e \<and> m = err_message e)"
    by (simp add: page_promise_Inl_iff http_on_page_def)
qed

theorem failed_page_fails_listBooks_witness:
  "\<not> served_from_cache False 0 initial_cache \<and>
   2 \<in> set (requested (books_parallel (ascii_platform []) status_failure_upstream (\<lambda>_. 0) 0 5
                         False initial_cache)) \<and>
   isl (page_promise status_failure_upstream 2) \<and>
   (\<exists>q m. q \<in> set (requested (books_parallel (ascii_platform []) status_failure_upstream
                              (\<lambda>_. 0) 0 5 False initial_cache)) \<and>
      page_promise status_failure_upstream q = Inl m \<and>
      reply (books_parallel (ascii_platform []) status_failure_upstream (\<lambda>_. 0) 0 5 False
               initial_cache)
        = Error 502 (js ''Could not fetch book list: '' @ m)) \<and>
   2 \<in> set (snd (books_sequential (ascii_platform []) status_failure_upstream False)) \<and>
   (\<exists>m. page_promise status_failure_upstream 2 = Inl m \<and>
      fst (books_sequential (ascii_platform []) status_failure_upstream False)
        = Error 502 (js ''Could not fetch book list: '' @ m))"
proof -
  let ?pf = "ascii_platform []"
  let ?R = "books_parallel ?pf status_failure_upstream (\<lambda>_. 0) 0 5 False initial_cache"
  let ?S = "books_sequential ?pf status_failure_upstream False"
  have miss: "\<not> served_from_cache False 0 initial_cache"
    by (simp add: served_from_cache_def initial_cache_def)
  have par: "2 \<in> set (requested ?R)"
    by (simp add: books_eval status_failure_upstream_def)
  have seq: "2 \<in> set (snd ?S)"
    by (simp add: loop_eval books_eval status_failure_upstream_def)
  have fails: "isl (page_promise status_failure_upstream 2)"
    by (simp add: books_eval status_failure_upstream_def)
  note inst = failed_page_fails_listBooks [where pf = ?pf and fetch = status_failure_upstream
      and settle = "\<lambda>_. 0" and now = 0 and now' = 5 and showAll = False and c = initial_cache
      and p = 2]
  from inst miss par fails
  have r1: "\<exists>q m. q \<in> set (requested ?R) \<and> page_promise status_failure_upstream q = Inl m \<and>
      reply ?R = Error 502 (js ''Could not fetch book list: '' @ m)"
    by blast
  from inst seq fails
  have r2: "\<exists>m. page_promise status_failure_upstream 2 = Inl m \<and>
      fst ?S = Error 502 (js ''Could not fetch book list: '' @ m)"
    by blast
  from miss par fails r1 seq r2 show ?thesis by blast
qed

text \<open>
  Claim C4, as the specification states it, fails for a transport failure: when the
  request for page 2 is rejected, the reply carries the message of the rejection and
  neither a page number nor a status.
\<close>

theorem transport_failure_has_no_page_number:
  "books_parallel (ascii_platform []) transport_failure_upstream (\<lambda>_. 0) 0 5 False initial_cache
     = \<lparr>reply = Error 502 (js ''Could not fetch book list: fetch failed''),
        requested = [1, 2], cache_after = initial_cache\<rparr>"
  by (simp add: books_eval transport_failure_upstream_def)

lemma filter_and_shape_Inr:
  "filter_and_shape pf showAll rawBooks = Inr allBooks \<longleftrightarrow>
     (\<forall>x\<in>set rawBooks. \<not> isl x) \<and>
     allBooks = map parseBook (filter (\<lambda>b. showAll \<or> \<not> isJunkBook pf b) (map projr rawBooks))"
proof -
  have "filter isl rawBooks = [] \<longleftrightarrow> (\<forall>x\<in>set rawBooks. \<not> isl x)"
    by (simp add: filter_empty_conv)
  then show ?thesis
    by (auto simp: filter_and_shape_def split: list.splits)
qed

lemma flat_page:
  "page_promise fetch p = Inr j \<Longrightarrow> \<forall>x\<in>set (flat_elems j). \<not> isl x \<Longrightarrow>
   map projr (flat_elems j) = page_flat fetch p"
  by (auto simp: page_promise_def page_flat_def flat_elems_def comp_def
        split: fetch_result.splits sum.splits books_json.splits if_splits)

lemma shaped_pages:
  "concat (map (\<lambda>p. shape_books pf showAll (records p)) pages)
     = discovered pf showAll records pages"
  by (induction pages) (simp_all add: discovered_def shape_books_def)

lemma parallel_success:
  assumes miss: "\<not> served_from_cache showAll now c"
    and ok: "reply (books_parallel pf fetch settle now now' showAll c) = Json es"
  shows "requested (books_parallel pf fetch settle now now' showAll c) = 1 # declared_pages fetch"
    and "es = sort_by_title pf (discovered pf showAll (page_flat fetch) (1 # declared_pages fetch))"
    and "reply (books_parallel pf fetch settle' now now' showAll c) = Json es"
proof -
  let ?pages = "declared_pages fetch"
  from miss ok obtain reqs where agg: "aggregate_parallel pf fetch settle showAll = (Inr es, reqs)"
    by (auto simp: books_parallel_def split: prod.splits sum.splits)
  then obtain j1 where j1: "page_promise fetch 1 = Inr j1"
    by (auto simp: aggregate_parallel_cases split: sum.splits)
  with agg obtain rem where rem: "promise_all settle (page_promise fetch) ?pages = Inr rem"
    by (auto simp: aggregate_parallel_cases split: sum.splits)
  with agg j1 obtain allBooks
    where shaped: "filter_and_shape pf showAll (concat (map flat_elems (j1 # rem))) = Inr allBooks"
      and es: "es = sort_by_title pf allBooks" and reqs: "reqs = 1 # ?pages"
    by (auto simp: aggregate_parallel_cases split: sum.splits)
  from rem have fine: "\<forall>p\<in>set ?pages. \<not> isl (page_promise fetch p)"
    and rem_eq: "rem = map (\<lambda>p. projr (page_promise fetch p)) ?pages"
    by (simp_all add: promise_all_Inr)
  from fine rem_eq have rem': "promise_all settle' (page_promise fetch) ?pages = Inr rem"
    by (simp add: promise_all_Inr)
  from j1 rem_eq have js: "j1 # rem = map (\<lambda>p. projr (page_promise fetch p)) (1 # ?pages)"
    by simp
  from shaped have clean: "\<forall>x\<in>set (concat (map flat_elems (j1 # rem))). \<not> isl x"
    and all: "allBooks = map parseBook (filter (\<lambda>b. showAll \<or> \<not> isJunkBook pf b)
                (map projr (concat (map flat_elems (j1 # rem)))))"
    by (simp_all add: filter_and_shape_Inr)
  have "map projr (concat (map flat_elems (j1 # rem)))
          = concat (map (\<lambda>p. map projr (flat_elems (projr (page_promise fetch p)))) (1 # ?pages))"
    unfolding js by (simp add: map_concat comp_def)
  also have "\<dots> = concat (map (page_flat fetch) (1 # ?pages))"
  proof (rule arg_cong [where f = concat], rule map_cong [OF refl])
    fix p
    assume p: "p \<in> set (1 # ?pages)"
    with j1 fine obtain j where j: "page_promise fetch p = Inr j"
      by (cases "page_promise fetch p") auto
    with p have "j \<in> set (j1 # rem)" unfolding js by force
    with clean have "\<forall>x\<in>set (flat_elems j). \<not> isl x" by auto
    with j show "map projr (flat_elems (projr (page_promise fetch p))) = page_flat fetch p"
      by (simp add: flat_page)
  qed
  finally have "allBooks = discovered pf showAll (page_flat fetch) (1 # ?pages)"
    using all by (simp add: discovered_def)
  with es show "es = sort_by_title pf (discovered pf showAll (page_flat fetch) (1 # ?pages))"
    by simp
  from miss agg reqs
  show "requested (books_parallel pf fetch settle now now' showAll c) = 1 # ?pages"
    by (simp add: books_parallel_def)
  from j1 rem' shaped es
  have "aggregate_parallel pf fetch settle' showAll = (Inr es, 1 # ?pages)"
    by (simp add: aggregate_parallel_cases)
  with miss show "reply (books_parallel pf fetch settle' now now' showAll c) = Json es"
    by (simp add: books_parallel_def)
qed

text \<open>
  The sequential loop, started at page 1 or later with the total in effect, requests
  the pages from its first one up to a page \<open>k\<close> that the upstream alone determines: every
  page before \<open>k\<close> holds a non-empty array and is followed by a page within the declared
  total, and \<open>k\<close> either marks the end of the data or is the last page within the total.
\<close>

lemma books_loop_pages:
  "books_loop pf fetch showAll page tp acc reqs = (Inr allBooks, out) \<Longrightarrow>
   1 \<le> page \<Longrightarrow> (1 < page \<longrightarrow> tp = declared_total fetch) \<Longrightarrow>
   \<exists>k. page - 1 \<le> k \<and> (page \<le> k \<longleftrightarrow> page_le page tp) \<and> out = reqs @ [page..k] \<and>
       (\<forall>p. page \<le> p \<and> p < k \<longrightarrow>
            good_page fetch p \<and> page_le (p + 1) (declared_total fetch)) \<and>
       (page \<le> k \<longrightarrow>
          end_of_data fetch k \<or>
          good_page fetch k \<and> \<not> page_le (k + 1) (declared_total fetch)) \<and>
       allBooks = acc @ concat (map (\<lambda>p. shape_books pf showAll (page_array fetch p))
                                    [page..k])"
proof (induction pf fetch showAll page tp acc reqs arbitrary: allBooks out
         rule: books_loop.induct)
  case (1 pf fetch showAll page tp acc reqs)
  note run = "1.prems"(1) [unfolded books_loop.simps [of pf fetch showAll page tp acc reqs]]
  show ?case
  proof (cases "page_le page tp")
    case False
    with run have "allBooks = acc" "out = reqs" by simp_all
    with False show ?thesis by (intro exI [of _ "page - 1"]) auto
  next
    case le: True
    show ?thesis
    proof (cases "good_page fetch page")
      case False
      with le run have out: "out = reqs @ [page]"
        by (auto simp: good_page_def Let_def split: fetch_result.splits sum.splits
              books_json.splits if_splits)
      from False le run
      have "end_of_data fetch page \<and>
            allBooks = acc @ shape_books pf showAll (page_array fetch page)"
        by (auto simp: good_page_def end_of_data_def page_array_def shape_books_def Let_def
              split: fetch_result.splits sum.splits books_json.splits if_splits)
      with out le show ?thesis by (intro exI [of _ page]) auto
    next
      case True
      then obtain r bs where r: "fetch page = Resolves r" "ok r" "body r = Inr (JArray bs)"
          "bs \<noteq> []"
        by (auto simp: good_page_def)
      let ?tp = "if page = 1 then totalPages_of r else tp"
      from le r run
      have rec: "books_loop pf fetch showAll (page + 1) ?tp
                   (acc @ shape_books pf showAll bs) (reqs @ [page]) = (Inr allBooks, out)"
        by (simp add: Let_def)
      from "1.prems"(2,3) r(1) have tp: "?tp = declared_total fetch"
        by (auto simp: declared_total_def)
      from "1.prems"(2) have pos: "1 \<le> page + 1" by simp
      from "1.IH" [OF _ r(1) _ refl r(3) _ r(4) rec pos] le r(2) tp
      obtain k where k: "page \<le> k"
        "page + 1 \<le> k \<longleftrightarrow> page_le (page + 1) (declared_total fetch)"
        "out = (reqs @ [page]) @ [page + 1..k]"
        "\<forall>p. page + 1 \<le> p \<and> p < k \<longrightarrow>
             good_page fetch p \<and> page_le (p + 1) (declared_total fetch)"
        "page + 1 \<le> k \<longrightarrow>
           end_of_data fetch k \<or>
           good_page fetch k \<and> \<not> page_le (k + 1) (declared_total fetch)"
        "allBooks = (acc @ shape_books pf showAll bs) @
           concat (map (\<lambda>p. shape_books pf showAll (page_array fetch p)) [page + 1..k])"
        by auto
      from k(1) have upto: "[page..k] = page # [page + 1..k]" by (simp add: upto_rec1)
      with k(3) have out: "out = reqs @ [page..k]" by simp
      from r have here: "page_array fetch page = bs" by (simp add: page_array_def)
      have before: "\<forall>p. page \<le> p \<and> p < k \<longrightarrow>
          good_page fetch p \<and> page_le (p + 1) (declared_total fetch)"
      proof (intro allI impI)
        fix p
        assume p: "page \<le> p \<and> p < k"
        show "good_page fetch p \<and> page_le (p + 1) (declared_total fetch)"
        proof (cases "p = page")
          case True
          with p have "page + 1 \<le> k" by arith
          with k(2) True \<open>good_page fetch page\<close> show ?thesis by simp
        next
          case False
          with p have "page + 1 \<le> p \<and> p < k" by arith
          with k(4) show ?thesis by blast
        qed
      qed
      have stop: "end_of_data fetch k \<or>
          good_page fetch k \<and> \<not> page_le (k + 1) (declared_total fetch)"
      proof (cases "k = page")
        case True
        with k(2) have "\<not> page_le (page + 1) (declared_total fetch)" by simp
        with True \<open>good_page fetch page\<close> show ?thesis by simp
      next
        case False
        with k(1) have "page + 1 \<le> k" by arith
        with k(5) show ?thesis by blast
      qed
      from k(6) have content: "allBooks = acc @
          concat (map (\<lambda>p. shape_books pf showAll (page_array fetch p)) [page..k])"
        unfolding upto by (simp add: here)
      from k(1) le out before stop content show ?thesis
        by (intro exI [of _ k]) simp
    qed
  qed
qed

lemma books_sequential_pages:
  assumes "fst (books_sequential pf fetch showAll) = Json es"
  shows "\<exists>k. 1 \<le> k \<and> snd (books_sequential pf fetch showAll) = [1..k] \<and>
       (\<forall>p. 1 \<le> p \<and> p < k \<longrightarrow>
            good_page fetch p \<and> page_le (p + 1) (declared_total fetch)) \<and>
       (end_of_data fetch k \<or>
        good_page fetch k \<and> \<not> page_le (k + 1) (declared_total fetch)) \<and>
       es = sort_by_title pf (discovered pf showAll (page_array fetch) [1..k])"
proof -
  from assms obtain allBooks reqs
    where run: "books_loop pf fetch showAll 1 (Some 1) [] [] = (Inr allBooks, reqs)"
      and es: "es = sort_by_title pf allBooks"
    by (auto simp: books_sequential_def split: prod.splits sum.splits)
  from run have reqs: "snd (books_sequential pf fetch showAll) = reqs"
    by (simp add: books_sequential_def)
  from books_loop_pages [OF run] obtain k
    where "1 \<le> k" "reqs = [1..k]"
      "\<forall>p. 1 \<le> p \<and> p < k \<longrightarrow> good_page fetch p \<and> page_le (p + 1) (declared_total fetch)"
      "end_of_data fetch k \<or> good_page fetch k \<and> \<not> page_le (k + 1) (declared_total fetch)"
      "allBooks = concat (map (\<lambda>p. shape_books pf showAll (page_array fetch p)) [1..k])"
    by (auto simp: page_le_def)
  with es reqs show ?thesis
    by (intro exI [of _ k]) (simp add: shaped_pages)
qed

text \<open>
  Claim C5. Let \<open>localeCompare\<close> be consistent (total and transitive). A list sent by
  the parallel handler after an aggregation comes from the requests for page 1 and the
  pages that page 1 declares; it is sorted by title, the entries of any one title are in
  the order of their discovery on these pages (page order, then position within the
  page), and the same list is sent whatever the order in which the page promises settle.
  A list sent by the sequential handler comes from the requests for the pages 1 to \<open>k\<close>,
  where \<open>k\<close> is the first page that marks the end of the data or is the last one within
  the declared total; it is sorted by title, and the entries of any one title are in the
  order of their discovery on the pages 1 to \<open>k\<close>.
\<close>

theorem listBooks_sorted_stable:
  assumes total: "\<forall>s t. localeCompare pf s t \<le> 0 \<or> localeCompare pf t s \<le> 0"
    and trans: "\<forall>s t u. localeCompare pf s t \<le> 0 \<and> localeCompare pf t u \<le> 0
                  \<longrightarrow> localeCompare pf s u \<le> 0"
  shows
  "(\<not> served_from_cache showAll now c \<and>
    reply (books_parallel pf fetch settle now now' showAll c) = Json es
      \<longrightarrow> requested (books_parallel pf fetch settle now now' showAll c)
            = 1 # declared_pages fetch \<and>
          sorted_wrt (\<lambda>a b. localeCompare pf (title a) (title b) \<le> 0) es \<and>
          (\<forall>t. filter (\<lambda>e. title e = t) es
                 = filter (\<lambda>e. title e = t)
                     (discovered pf showAll (page_flat fetch) (1 # declared_pages fetch))) \<and>
          reply (books_parallel pf fetch settle' now now' showAll c) = Json es) \<and>
   (fst (books_sequential pf fetch showAll) = Json es'
      \<longrightarrow> (\<exists>k. 1 \<le> k \<and> snd (books_sequential pf fetch showAll) = [1..k] \<and>
             (\<forall>p. 1 \<le> p \<and> p < k \<longrightarrow>
                  good_page fetch p \<and> page_le (p + 1) (declared_total fetch)) \<and>
             (end_of_data fetch k \<or>
              good_page fetch k \<and> \<not> page_le (k + 1) (declared_total fetch)) \<and>
             sorted_wrt (\<lambda>a b. localeCompare pf (title a) (title b) \<le> 0) es' \<and>
             (\<forall>t. filter (\<lambda>e. title e = t) es'
                    = filter (\<lambda>e. title e = t)
                        (discovered pf showAll (page_array fetch) [1..k]))))"
proof -
  let ?cmp = "\<lambda>a b. localeCompare pf (title a) (title b)"
  have refl: "\<And>k. localeCompare pf k k \<le> 0" using total by blast
  have sorted: "\<And>xs. sorted_wrt (\<lambda>a b. ?cmp a b \<le> 0) (sort_by_title pf xs)"
    unfolding sort_by_title_def
    by (rule sorted_sort_cmp) (use total trans in blast)+
  have stable: "\<And>xs t. filter (\<lambda>e. title e = t) (sort_by_title pf xs)
                         = filter (\<lambda>e. title e = t) xs"
    unfolding sort_by_title_def by (rule filter_sort_cmp [OF refl])
  show ?thesis
  proof (intro conjI impI)
    assume h: "\<not> served_from_cache showAll now c \<and>
      reply (books_parallel pf fetch settle now now' showAll c) = Json es"
    then have miss: "\<not> served_from_cache showAll now c"
      and ok: "reply (books_parallel pf fetch settle now now' showAll c) = Json es"
      by simp_all
    note facts = parallel_success [OF miss ok]
    from facts(1)
    show "requested (books_parallel pf fetch settle now now' showAll c)
            = 1 # declared_pages fetch" .
    from facts(2) sorted show "sorted_wrt (\<lambda>a b. ?cmp a b \<le> 0) es" by simp
    from facts(2) stable
    show "\<forall>t. filter (\<lambda>e. title e = t) es
                 = filter (\<lambda>e. title e = t)
                     (discovered pf showAll (page_flat fetch) (1 # declared_pages fetch))"
      by simp
    from facts(3) show "reply (books_parallel pf fetch settle' now now' showAll c) = Json es" .
  next
    assume ok: "fst (books_sequential pf fetch showAll) = Json es'"
    from books_sequential_pages [OF ok] obtain k
      where k: "1 \<le> k" "snd (books_sequential pf fetch showAll) = [1..k]"
        "\<forall>p. 1 \<le> p \<and> p < k \<longrightarrow> good_page fetch p \<and> page_le (p + 1) (declared_total fetch)"
        "end_of_data fetch k \<or> good_page fetch k \<and> \<not> page_le (k + 1) (declared_total fetch)"
        "es' = sort_by_title pf (discovered pf showAll (page_array fetch) [1..k])"
      by blast
    from k(5) sorted have s: "sorted_wrt (\<lambda>a b. ?cmp a b \<le> 0) es'" by simp
    from k(5) stable
    have f: "\<forall>t. filter (\<lambda>e. title e = t) es'
                 = filter (\<lambda>e. title e = t)
                     (discovered pf showAll (page_array fetch) [1..k])"
      by simp
    from k(1-4) s f
    show "\<exists>k. 1 \<le> k \<and> snd (books_sequential pf fetch showAll) = [1..k] \<and>
             (\<forall>p. 1 \<le> p \<and> p < k \<longrightarrow>
                  good_page fetch p \<and> page_le (p + 1) (declared_total fetch)) \<and>
             (end_of_data fetch k \<or>
              good_page fetch k \<and> \<not> page_le (k + 1) (declared_total fetch)) \<and>
             sorted_wrt (\<lambda>a b. ?cmp a b \<le> 0) es' \<and>
             (\<forall>t. filter (\<lambda>e. title e = t) es'
                    = filter (\<lambda>e. title e = t)
                        (discovered pf showAll (page_array fetch) [1..k]))"
      by blast
  qed
qed

text \<open>
  Claim C8, as the code has it. In the sequential handler a requested page that comes
  with a success status and an empty array, or a body that is not an array, is the last
  page requested, and the reply is a list. The parallel handler requests page 1 and then
  every page that page 1 declares, whatever the pages hold; when every requested page
  comes with a success status and an array, empty or not, the reply is a list.
\<close>

theorem empty_page_ends_sequential_only:
  "(p \<in> set (snd (books_sequential pf fetch showAll)) \<and>
    fetch p = Resolves r \<and> ok r \<and> body r = Inr j \<and> (\<forall>bs. j = JArray bs \<longrightarrow> bs = [])
      \<longrightarrow> snd (books_sequential pf fetch showAll) = [1..p] \<and>
          (\<exists>es. fst (books_sequential pf fetch showAll) = Json es)) \<and>
   (\<not> served_from_cache showAll now c \<and> fetch 1 = Resolves r1 \<and> ok r1 \<and> body r1 = Inr j1
      \<longrightarrow> requested (books_parallel pf fetch settle now now' showAll c)
            = 1 # (case totalPages_of r1 of None \<Rightarrow> [] | Some n \<Rightarrow> [2..n])) \<and>
   (\<not> served_from_cache showAll now c \<and>
    (\<forall>q\<in>set (requested (books_parallel pf fetch settle now now' showAll c)).
        \<exists>r bs. fetch q = Resolves r \<and> ok r \<and> body r = Inr (JArray bs))
      \<longrightarrow> (\<exists>es. reply (books_parallel pf fetch settle now now' showAll c) = Json es))"
proof (intro conjI impI)
  assume h: "p \<in> set (snd (books_sequential pf fetch showAll)) \<and>
    fetch p = Resolves r \<and> ok r \<and> body r = Inr j \<and> (\<forall>bs. j = JArray bs \<longrightarrow> bs = [])"
  then have eod: "end_of_data fetch p" by (auto simp: end_of_data_def)
  obtain k where k: "1 \<le> k" "snd (books_sequential pf fetch showAll) = [1..k]"
    "\<forall>p. 1 \<le> p \<and> p < k \<longrightarrow> good_page fetch p"
    "isl (page_promise fetch k) \<and>
         fst (books_sequential pf fetch showAll)
           = Error 502 (js ''Could not fetch book list: '' @ projl (page_promise fetch k)) \<or>
         \<not> isl (page_promise fetch k) \<and>
         fst (books_sequential pf fetch showAll)
           = Json (sort_by_title pf
               (concat (map (\<lambda>p. shape_books pf showAll (page_array fetch p)) [1..k])))"
    by (rule books_sequential_spec)
  from h k(2) have "1 \<le> p" "p \<le> k" by simp_all
  with eod k(3) good_page_not_end have "p = k" by (metis order_le_less)
  with k(2) show "snd (books_sequential pf fetch showAll) = [1..p]" by simp
  from \<open>p = k\<close> eod k(4) end_of_data_not_failing
  show "\<exists>es. fst (books_sequential pf fetch showAll) = Json es" by auto
next
  assume "\<not> served_from_cache showAll now c \<and> fetch 1 = Resolves r1 \<and> ok r1 \<and> body r1 = Inr j1"
  then show "requested (books_parallel pf fetch settle now now' showAll c)
            = 1 # (case totalPages_of r1 of None \<Rightarrow> [] | Some n \<Rightarrow> [2..n])"
    by (auto simp: books_parallel_def aggregate_parallel_def Let_def
          split: prod.splits sum.splits)
next
  let ?R = "books_parallel pf fetch settle now now' showAll c"
  assume h: "\<not> served_from_cache showAll now c \<and>
    (\<forall>q\<in>set (requested ?R). \<exists>r bs. fetch q = Resolves r \<and> ok r \<and> body r = Inr (JArray bs))"
  have "1 \<in> set (requested ?R)"
    using h by (auto simp: books_parallel_def aggregate_parallel_cases split: sum.splits)
  with h obtain r1 bs1 where r1: "fetch 1 = Resolves r1" "ok r1" "body r1 = Inr (JArray bs1)"
    by blast
  then have p1: "page_promise fetch 1 = Inr (JArray bs1)" by (simp add: page_promise_def)
  with h have reqs: "requested ?R = 1 # declared_pages fetch"
    by (simp add: books_parallel_def aggregate_parallel_cases split: sum.splits)
  with h have arrays: "\<forall>q\<in>set (declared_pages fetch).
      \<exists>bs. page_promise fetch q = Inr (JArray bs)"
    by (fastforce simp: page_promise_def)
  then have "\<forall>q\<in>set (declared_pages fetch). \<not> isl (page_promise fetch q)" by auto
  then have rem: "promise_all settle (page_promise fetch) (declared_pages fetch)
      = Inr (map (\<lambda>p. projr (page_promise fetch p)) (declared_pages fetch))"
    by (simp add: promise_all_Inr)
  have "\<forall>x\<in>set (concat (map flat_elems
           (JArray bs1 # map (\<lambda>p. projr (page_promise fetch p)) (declared_pages fetch)))).
          \<not> isl x"
    using arrays by (fastforce simp: flat_elems_def)
  then obtain allBooks where "filter_and_shape pf showAll (concat (map flat_elems
           (JArray bs1 # map (\<lambda>p. projr (page_promise fetch p)) (declared_pages fetch))))
        = Inr allBooks"
    using filter_and_shape_Inr by blast
  with h p1 rem show "\<exists>es. reply ?R = Json es"
    by (simp add: books_parallel_def aggregate_parallel_cases)
qed

theorem empty_page_ends_sequential_only_witness:
  "2 \<in> set (snd (books_sequential (ascii_platform []) gap_upstream False)) \<and>
   gap_upstream 2 = Resolves \<lparr>status = 200, header = Some (js ''3''), body = Inr (JArray [])\<rparr> \<and>
   snd (books_sequential (ascii_platform []) gap_upstream False) = [1..2] \<and>
   (\<exists>es. fst (books_sequential (ascii_platform []) gap_upstream False) = Json es) \<and>
   \<not> served_from_cache False 0 initial_cache \<and>
   requested (books_parallel (ascii_platform []) gap_upstream (\<lambda>_. 0) 0 5 False initial_cache)
     = [1, 2, 3] \<and>
   (\<exists>es. reply (books_parallel (ascii_platform []) gap_upstream (\<lambda>_. 0) 0 5 False initial_cache)
           = Json es)"
proof -
  let ?pf = "ascii_platform []"
  let ?R = "books_parallel ?pf gap_upstream (\<lambda>_. 0) 0 5 False initial_cache"
  let ?S = "books_sequential ?pf gap_upstream False"
  let ?r2 = "\<lparr>status = 200, header = Some (js ''3''), body = Inr (JArray [])\<rparr>
               :: books_json http_response"
  have seq: "2 \<in> set (snd ?S)"
    by (simp add: loop_eval books_eval gap_upstream_def)
  have empty: "gap_upstream 2 = Resolves ?r2" "ok ?r2" "body ?r2 = Inr (JArray [])"
    "\<forall>bs. JArray [] = JArray bs \<longrightarrow> bs = []"
    by (simp_all add: gap_upstream_def page_response_def ok_def)
  have miss: "\<not> served_from_cache False 0 initial_cache"
    by (simp add: served_from_cache_def initial_cache_def)
  have reqs: "requested ?R = [1, 2, 3]"
    by (simp add: books_eval gap_upstream_def)
  have "\<forall>q\<in>set [1, 2, 3]. \<exists>r bs. gap_upstream q = Resolves r \<and> ok r \<and> body r = Inr (JArray bs)"
    by (simp add: gap_upstream_def page_response_def ok_def)
  then have arrays: "\<forall>q\<in>set (requested ?R).
      \<exists>r bs. gap_upstream q = Resolves r \<and> ok r \<and> body r = Inr (JArray bs)"
    unfolding reqs .
  note inst = empty_page_ends_sequential_only [where pf = ?pf and fetch = gap_upstream
      and settle = "\<lambda>_. 0" and now = 0 and now' = 5 and showAll = False and c = initial_cache
      and p = 2 and r = ?r2 and j = "JArray []"]
  from inst seq empty
  have r1: "snd ?S = [1..2]" and r2: "\<exists>es. fst ?S = Json es"
    by blast+
  from inst miss arrays have r3: "\<exists>es. reply ?R = Json es"
    by blast
  from seq empty(1) r1 r2 miss reqs r3 show ?thesis by blast
qed

text \<open>
  Claim C8, as the specification states it, fails for the parallel handler: with an empty
  page 2 of 3, page 3 is requested all the same and its record is in the reply.
\<close>

theorem parallel_requests_past_empty_page:
  "gap_upstream 2 = page_response 200 ''3'' [] \<and>
   requested (books_parallel (ascii_platform []) gap_upstream (\<lambda>_. 0) 0 5 False initial_cache)
     = [1, 2, 3] \<and>
   reply (books_parallel (ascii_platform []) gap_upstream (\<lambda>_. 0) 0 5 False initial_cache)
     = Json [parseBook (book 3 ''Botany''), parseBook (book 1 ''Zoology'')]"
  by (simp add: books_eval gap_upstream_def)

lemma codeunit_compare_total: "codeunit_compare s t \<le> 0 \<or> codeunit_compare t s \<le> 0"
  by (induction s t rule: codeunit_compare.induct) auto

lemma codeunit_compare_trans:
  "codeunit_compare s t \<le> 0 \<Longrightarrow> codeunit_compare t u \<le> 0 \<Longrightarrow> codeunit_compare s u \<le> 0"
proof (induction s arbitrary: t u)
  case Nil
  then show ?case by (cases u) simp_all
next
  case (Cons x xs)
  from Cons.prems(1) obtain y ys where t: "t = y # ys" by (cases t) simp_all
  from Cons.prems(2) t obtain z zs where u: "u = z # zs" by (cases u) simp_all
  from Cons.prems(1) t have xy: "x < y \<or> x = y \<and> codeunit_compare xs ys \<le> 0"
    by (simp split: if_splits)
  from Cons.prems(2) t u have yz: "y < z \<or> y = z \<and> codeunit_compare ys zs \<le> 0"
    by (simp split: if_splits)
  show ?case
  proof (cases "x < z")
    case True
    with u show ?thesis by simp
  next
    case False
    with xy yz have "x = z" and "codeunit_compare xs ys \<le> 0" and "codeunit_compare ys zs \<le> 0"
      by auto
    with Cons.IH u show ?thesis by simp
  qed
qed

theorem listBooks_sorted_stable_witness:
  "\<not> served_from_cache False 0 initial_cache \<and>
   reply (books_parallel (ascii_platform []) duplicates_upstream (\<lambda>p. nat (5 - p)) 0 5 False
            initial_cache)
     = Json [parseBook (book 2 ''Algebra''), parseBook (book 4 ''Algebra''),
             parseBook (book 1 ''Physics''), parseBook (book 3 ''Physics''),
             parseBook (book 5 ''Physics'')] \<and>
   requested (books_parallel (ascii_platform []) duplicates_upstream (\<lambda>p. nat (5 - p)) 0 5
                False initial_cache)
     = 1 # declared_pages duplicates_upstream \<and>
   sorted_wrt (\<lambda>a b. localeCompare (ascii_platform []) (title a) (title b) \<le> 0)
     [parseBook (book 2 ''Algebra''), parseBook (book 4 ''Algebra''),
      parseBook (book 1 ''Physics''), parseBook (book 3 ''Physics''),
      parseBook (book 5 ''Physics'')] \<and>
   filter (\<lambda>e. title e = js ''Physics'')
     [parseBook (book 2 ''Algebra''), parseBook (book 4 ''Algebra''),
      parseBook (book 1 ''Physics''), parseBook (book 3 ''Physics''),
      parseBook (book 5 ''Physics'')]
     = filter (\<lambda>e. title e = js ''Physics'')
         (discovered (ascii_platform []) False (page_flat duplicates_upstream)
            (1 # declared_pages duplicates_upstream)) \<and>
   reply (books_parallel (ascii_platform []) duplicates_upstream (\<lambda>_. 0) 0 5 False
            initial_cache)
     = Json [parseBook (book 2 ''Algebra''), parseBook (book 4 ''Algebra''),
             parseBook (book 1 ''Physics''), parseBook (book 3 ''Physics''),
             parseBook (book 5 ''Physics'')] \<and>
   books_sequential (ascii_platform []) duplicates_upstream False
     = (Json [parseBook (book 2 ''Algebra''), parseBook (book 4 ''Algebra''),
              parseBook (book 1 ''Physics''), parseBook (book 3 ''Physics''),
              parseBook (book 5 ''Physics'')], [1, 2, 3]) \<and>
   filter (\<lambda>e. title e = js ''Physics'')
     [parseBook (book 2 ''Algebra''), parseBook (book 4 ''Algebra''),
      parseBook (book 1 ''Physics''), parseBook (book 3 ''Physics''),
      parseBook (book 5 ''Physics'')]
     = filter (\<lambda>e. title e = js ''Physics'')
         (discovered (ascii_platform []) False (page_array duplicates_upstream) [1..3])"
proof -
  let ?pf = "ascii_platform []"
  let ?es = "[parseBook (book 2 ''Algebra''), parseBook (book 4 ''Algebra''),
              parseBook (book 1 ''Physics''), parseBook (book 3 ''Physics''),
              parseBook (book 5 ''Physics'')]"
  let ?S = "books_sequential ?pf duplicates_upstream False"
  have total: "\<forall>s t. localeCompare ?pf s t \<le> 0 \<or> localeCompare ?pf t s \<le> 0"
    by (simp add: ascii_platform_def codeunit_compare_total)
  have trans: "\<forall>s t u. localeCompare ?pf s t \<le> 0 \<and> localeCompare ?pf t u \<le> 0
                 \<longrightarrow> localeCompare ?pf s u \<le> 0"
    unfolding ascii_platform_def using codeunit_compare_trans by auto
  have miss: "\<not> served_from_cache False 0 initial_cache"
    by (simp add: served_from_cache_def initial_cache_def)
  have sent: "reply (books_parallel ?pf duplicates_upstream (\<lambda>p. nat (5 - p)) 0 5 False
                       initial_cache) = Json ?es"
    by (simp add: books_eval duplicates_upstream_def)
  have seq: "?S = (Json ?es, [1, 2, 3])"
    by (simp add: loop_eval books_eval duplicates_upstream_def)
  then have seq_sent: "fst ?S = Json ?es" and seq_reqs: "snd ?S = [1, 2, 3]" by simp_all
  note inst = listBooks_sorted_stable [where pf = ?pf and fetch = duplicates_upstream
      and settle = "\<lambda>p. nat (5 - p)" and settle' = "\<lambda>_. 0" and now = 0 and now' = 5
      and showAll = False and c = initial_cache and es = ?es and es' = ?es, OF total trans]
  from inst miss sent
  have r0: "requested (books_parallel ?pf duplicates_upstream (\<lambda>p. nat (5 - p)) 0 5 False
                         initial_cache) = 1 # declared_pages duplicates_upstream"
    and r1: "sorted_wrt (\<lambda>a b. localeCompare ?pf (title a) (title b) \<le> 0) ?es"
    and r2: "filter (\<lambda>e. title e = js ''Physics'') ?es
               = filter (\<lambda>e. title e = js ''Physics'')
                   (discovered ?pf False (page_flat duplicates_upstream)
                      (1 # declared_pages duplicates_upstream))"
    and r3: "reply (books_parallel ?pf duplicates_upstream (\<lambda>_. 0) 0 5 False initial_cache)
               = Json ?es"
    by blast+
  from inst seq_sent obtain k
    where k: "1 \<le> k" "snd ?S = [1..k]"
      and stable: "\<forall>t. filter (\<lambda>e. title e = t) ?es
                     = filter (\<lambda>e. title e = t)
                         (discovered ?pf False (page_array duplicates_upstream) [1..k])"
    by blast
  from k(2) seq_reqs have "[1..k] = [1, 2, 3]" by simp
  then have "length [1..k] = length [1, 2, 3 :: int]" by (rule arg_cong)
  with k(1) have "k = 3" by simp
  with stable
  have r4: "filter (\<lambda>e. title e = js ''Physics'') ?es
              = filter (\<lambda>e. title e = js ''Physics'')
                  (discovered ?pf False (page_array duplicates_upstream) [1..3])"
    by blast
  from miss sent r0 r1 r2 r3 seq r4 show ?thesis by blast
qed

end
